theory Spec2Isabelle
  imports Main "HOL-Library.AList"
begin

section \<open>Ed-Fi student data loader: a shallow embedding of load\_students.py\<close>

text \<open>
  The script has two classes. \<open>EdFiApiClient\<close> discovers two endpoint URLs, obtains an
  OAuth bearer token and sends authenticated requests, re-authenticating once on HTTP 401.
  \<open>StudentDataLoader\<close> turns each CSV row into two JSON payloads and posts them, counting
  successes and failures over the whole file.

  The embedding keeps the source's function and field names. Mutation of the client object
  is explicit state passing; every \<open>raise\<close> is an \<open>Inl\<close> result; the network, the file
  system and the Python builtins the code calls are parameters collected in one record.
\<close>

subsection \<open>Python values\<close>

text \<open>
  A Python \<open>float\<close>: sign, mantissa and binary exponent of a finite value, or an infinity,
  or a NaN. Only its truth value is ever inspected by the code; parsing is a parameter.
\<close>

datatype pyfloat = Finite bool nat int | Infinity bool | NaN

text \<open>
  The values that \<open>json.loads\<close> produces and that the payload builders assemble. A \<open>dict\<close>
  is an association list in insertion order.
\<close>

datatype pyval =
    PNone
  | PBool bool
  | PInt int
  | PFloat pyfloat
  | PStr string
  | PList "pyval list"
  | PDict "(string \<times> pyval) list"

text \<open>Python's truth value testing, as used by \<open>if x\<close> and \<open>x and y\<close>.\<close>

fun truthy :: "pyval \<Rightarrow> bool" where
  "truthy PNone = False"
| "truthy (PBool b) = b"
| "truthy (PInt i) = (i \<noteq> 0)"
| "truthy (PFloat (Finite sg m e)) = (m \<noteq> 0)"
| "truthy (PFloat (Infinity sg)) = True"
| "truthy (PFloat NaN) = True"
| "truthy (PStr s) = (s \<noteq> [])"
| "truthy (PList xs) = (xs \<noteq> [])"
| "truthy (PDict d) = (d \<noteq> [])"

text \<open>Truth value of an \<open>Optional[str]\<close>: \<open>None\<close> and the empty string are both false.\<close>

fun truthy_opt :: "string option \<Rightarrow> bool" where
  "truthy_opt None = False"
| "truthy_opt (Some s) = (s \<noteq> [])"

subsection \<open>Exceptions\<close>

record response =
  status_code :: int
  content :: string

text \<open>
  The \<open>requests.RequestException\<close> family: a transport failure raised by the call itself
  (connection refused, timeout, DNS, invalid URL), the \<open>HTTPError\<close> of
  \<open>raise_for_status\<close>, which carries the response, and the \<open>JSONDecodeError\<close> of
  \<open>response.json()\<close>, which in requests is a \<open>RequestException\<close> without a response.
\<close>

datatype request_exception =
    Transport string
  | HTTPError response
  | JSONDecodeError

text \<open>
  Every exception the modelled code can raise. \<open>DiscoverFailed e\<close> stands for
  \<open>Exception(f"Failed to discover API endpoints: {e}")\<close>, \<open>AuthFailed e\<close> for
  \<open>Exception(f"Failed to authenticate: {e}")\<close>, \<open>CsvNotFound f\<close> for
  \<open>Exception(f"CSV file not found: {f}")\<close> and \<open>CsvError e\<close> for
  \<open>Exception(f"Error reading CSV file: {e}")\<close>.
\<close>

datatype exn =
    RequestException request_exception
  | KeyError string
  | TypeError
  | ValueError
  | FileNotFoundError
  | OSError
  | DiscoverFailed request_exception
  | AuthFailed request_exception
  | CsvNotFound string
  | CsvError exn

subsection \<open>The outside world\<close>

text \<open>
  The three entry points of the \<open>requests\<close> library that the client calls, with the
  arguments it passes. \<open>requests.post\<close> receives whatever value the discovery document
  held under \<open>oauth\<close>, so its URL is a Python value.
\<close>

datatype http_call =
    RequestsGet string int
  | RequestsPost pyval "(string \<times> string) list" "(string \<times> string) list" int
  | RequestsRequest string string "(string \<times> string) list" "(string \<times> pyval) list option" int

fun is_api_request :: "http_call \<Rightarrow> bool" where
  "is_api_request (RequestsRequest m u h j t) = True"
| "is_api_request _ = False"

fun is_token_post :: "http_call \<Rightarrow> bool" where
  "is_token_post (RequestsPost u d h t) = True"
| "is_token_post _ = False"

fun call_headers :: "http_call \<Rightarrow> (string \<times> string) list" where
  "call_headers (RequestsGet u t) = []"
| "call_headers (RequestsPost u d h t) = h"
| "call_headers (RequestsRequest m u h j t) = h"

fun call_json :: "http_call \<Rightarrow> (string \<times> pyval) list option" where
  "call_json (RequestsRequest m u h j t) = j"
| "call_json _ = None"

text \<open>
  What the code takes from outside itself. \<open>http\<close> is the remote side: from its current
  state and a call it gives the outcome (\<open>Inl\<close> a transport failure, \<open>Inr\<close> a response)
  and its next state. \<open>json_loads\<close> is the JSON parser behind \<open>response.json()\<close>
  (\<open>None\<close>: not JSON); \<open>py_float\<close> and \<open>py_int\<close> are the builtins \<open>float\<close> and \<open>int\<close>
  on a string (\<open>None\<close>: \<open>ValueError\<close>); \<open>py_format\<close> renders a value that is not a
  string inside an f-string; \<open>urljoin\<close> is \<open>urllib.parse.urljoin\<close>; \<open>open_csv\<close> opens a
  file and reads its rows with \<open>csv.DictReader\<close>, each row a dictionary from the header's
  column names to the cell texts.
\<close>

record 'w env =
  http :: "'w \<Rightarrow> http_call \<Rightarrow> (string + response) \<times> 'w"
  json_loads :: "string \<Rightarrow> pyval option"
  py_float :: "string \<Rightarrow> pyfloat option"
  py_int :: "string \<Rightarrow> int option"
  py_format :: "pyval \<Rightarrow> string"
  urljoin :: "string \<Rightarrow> string \<Rightarrow> string"
  open_csv :: "string \<Rightarrow> exn + (string \<times> string) list list"

subsection \<open>Data model of the script\<close>

record StudentRecord =
  unique_id :: string
  birth_date :: string
  first_name :: string
  last_name :: string
  middle_name :: "string option"
  title :: "string option"
  preferred_first_name :: "string option"
  preferred_last_name :: "string option"
  enrollment_date :: string
  enrollment_grade_level :: string
  full_time :: string

record EdFiApiClient =
  base_url :: string
  client_id :: string
  client_secret :: string
  school_id :: string
  timeout :: int
  access_token :: pyval
  token_expiry :: pyval
  oauth_url :: pyval
  data_management_api_url :: pyval

text \<open>The messages written through \<open>logger.info\<close>, \<open>logger.warning\<close> and \<open>logger.error\<close>.\<close>

datatype log_entry =
    LogDiscovering string
  | LogDiscovered
  | LogAuthenticating
  | LogAuthenticated
  | LogTokenExpired
  | LogRequestFailed request_exception
  | LogResponseStatus int
  | LogResponseBody string
  | LogReadRecords nat string
  | LogLoading string string string
  | LogStudentCreated string
  | LogAssociationCreated string
  | LogLoadFailed string exn
  | LogContinuing
  | LogLoadComplete nat nat
  | LogStudentsFailed nat

text \<open>
  The state a run threads through: the client object, the remote side, and two histories
  kept for the statements below, the calls made to \<open>requests\<close> and the log, oldest first.
\<close>

record 'w state =
  client :: EdFiApiClient
  world :: 'w
  sent :: "http_call list"
  logged :: "log_entry list"

type_synonym ('w, 'a) prog = "'w state \<Rightarrow> (exn + 'a) \<times> 'w state"

subsection \<open>Sequencing, raising and catching\<close>

definition ret :: "'a \<Rightarrow> ('w, 'a) prog" where
  "ret x = (\<lambda>s. (Inr x, s))"

definition raise :: "exn \<Rightarrow> ('w, 'a) prog" where
  "raise e = (\<lambda>s. (Inl e, s))"

definition bind :: "('w, 'a) prog \<Rightarrow> ('a \<Rightarrow> ('w, 'b) prog) \<Rightarrow> ('w, 'b) prog" where
  "bind m f = (\<lambda>s. case m s of (Inl e, s') \<Rightarrow> (Inl e, s') | (Inr x, s') \<Rightarrow> f x s')"

definition next_do :: "('w, unit) prog \<Rightarrow> ('w, 'b) prog \<Rightarrow> ('w, 'b) prog" where
  "next_do m n = bind m (\<lambda>_. n)"

text \<open>\<open>try: m except requests.RequestException as e: h e\<close>; any other exception passes.\<close>

definition except_request :: "('w, 'a) prog \<Rightarrow> (request_exception \<Rightarrow> ('w, 'a) prog) \<Rightarrow> ('w, 'a) prog" where
  "except_request m h = (\<lambda>s. case m s of
       (Inl (RequestException e), s') \<Rightarrow> h e s'
     | r \<Rightarrow> r)"

text \<open>\<open>try: m except Exception as e: h e\<close>.\<close>

definition except_any :: "('w, 'a) prog \<Rightarrow> (exn \<Rightarrow> ('w, 'a) prog) \<Rightarrow> ('w, 'a) prog" where
  "except_any m h = (\<lambda>s. case m s of (Inl e, s') \<Rightarrow> h e s' | r \<Rightarrow> r)"

definition lift :: "exn + 'a \<Rightarrow> ('w, 'a) prog" where
  "lift r = (\<lambda>s. (r, s))"

definition logger :: "log_entry \<Rightarrow> ('w, unit) prog" where
  "logger l = (\<lambda>s. (Inr (), s\<lparr>logged := logged s @ [l]\<rparr>))"

definition get_client :: "('w, EdFiApiClient) prog" where
  "get_client = (\<lambda>s. (Inr (client s), s))"

definition set_client :: "(EdFiApiClient \<Rightarrow> EdFiApiClient) \<Rightarrow> ('w, unit) prog" where
  "set_client f = (\<lambda>s. (Inr (), s\<lparr>client := f (client s)\<rparr>))"

text \<open>
  One call into \<open>requests\<close>: the call is recorded, the remote side answers and moves on;
  a transport failure is raised as a \<open>RequestException\<close>.
\<close>

definition requests_call :: "'w env \<Rightarrow> http_call \<Rightarrow> ('w, response) prog" where
  "requests_call E c = (\<lambda>s.
     case http E (world s) c of
       (Inl t, w') \<Rightarrow> (Inl (RequestException (Transport t)), s\<lparr>world := w', sent := sent s @ [c]\<rparr>)
     | (Inr r, w') \<Rightarrow> (Inr r, s\<lparr>world := w', sent := sent s @ [c]\<rparr>))"

subsection \<open>Library behaviour the code relies on\<close>

text \<open>\<open>Response.raise_for_status\<close> raises for the 4xx and 5xx status codes only.\<close>

definition raise_for_status :: "response \<Rightarrow> exn + unit" where
  "raise_for_status r =
     (if 400 \<le> status_code r \<and> status_code r < 600
      then Inl (RequestException (HTTPError r)) else Inr ())"

definition response_json :: "'w env \<Rightarrow> response \<Rightarrow> exn + pyval" where
  "response_json E r =
     (case json_loads E (content r) of
        None \<Rightarrow> Inl (RequestException JSONDecodeError)
      | Some v \<Rightarrow> Inr v)"

text \<open>
  \<open>v[k]\<close> for a string key: a dictionary without the key raises \<open>KeyError\<close>; a list, a
  string, a number, a boolean or \<open>None\<close> raises \<open>TypeError\<close>.
\<close>

fun getitem :: "pyval \<Rightarrow> string \<Rightarrow> exn + pyval" where
  "getitem (PDict d) k = (case map_of d k of None \<Rightarrow> Inl (KeyError k) | Some v \<Rightarrow> Inr v)"
| "getitem v k = Inl TypeError"

text \<open>\<open>v + '/'\<close>: string concatenation, a \<open>TypeError\<close> for every other left operand.\<close>

fun add_str :: "pyval \<Rightarrow> string \<Rightarrow> exn + string" where
  "add_str (PStr s) t = Inr (s @ t)"
| "add_str v t = Inl TypeError"

text \<open>A value interpolated into an f-string: a string stands for itself.\<close>

definition format_value :: "'w env \<Rightarrow> pyval \<Rightarrow> string" where
  "format_value E v = (case v of PStr s \<Rightarrow> s | _ \<Rightarrow> py_format E v)"

definition rstrip :: "char \<Rightarrow> string \<Rightarrow> string" where
  "rstrip c s = rev (dropWhile (\<lambda>x. x = c) (rev s))"

definition lstrip :: "char \<Rightarrow> string \<Rightarrow> string" where
  "lstrip c s = dropWhile (\<lambda>x. x = c) s"

subsection \<open>EdFiApiClient\<close>

definition EdFiApiClient_init :: "string \<Rightarrow> string \<Rightarrow> string \<Rightarrow> string \<Rightarrow> int \<Rightarrow> EdFiApiClient" where
  "EdFiApiClient_init url cid secret school t =
     \<lparr> base_url = rstrip CHR ''/'' url, client_id = cid, client_secret = secret,
       school_id = school, timeout = t, access_token = PNone, token_expiry = PNone,
       oauth_url = PNone, data_management_api_url = PNone \<rparr>"

definition discover_endpoints :: "'w env \<Rightarrow> ('w, unit) prog" where
  "discover_endpoints E =
     bind get_client (\<lambda>c.
       if truthy (oauth_url c) \<and> truthy (data_management_api_url c) then ret ()
       else except_request
         (next_do (logger (LogDiscovering (base_url c)))
           (bind (requests_call E (RequestsGet (base_url c) (timeout c))) (\<lambda>resp.
            next_do (lift (raise_for_status resp))
           (bind (lift (response_json E resp)) (\<lambda>api_info.
            bind (lift (getitem api_info ''urls'')) (\<lambda>urls.
            bind (lift (getitem urls ''oauth'')) (\<lambda>v.
            next_do (set_client (\<lambda>c. c\<lparr>oauth_url := v\<rparr>))
           (bind (lift (getitem api_info ''urls'')) (\<lambda>urls.
            bind (lift (getitem urls ''dataManagementApi'')) (\<lambda>v.
            next_do (set_client (\<lambda>c. c\<lparr>data_management_api_url := v\<rparr>))
                    (logger LogDiscovered)))))))))))
         (\<lambda>e. raise (DiscoverFailed e)))"

definition authenticate :: "'w env \<Rightarrow> ('w, unit) prog" where
  "authenticate E =
     next_do (discover_endpoints E)
    (bind get_client (\<lambda>c.
       let token_data = [(''grant_type'', ''client_credentials''),
                         (''client_id'', client_id c),
                         (''client_secret'', client_secret c)]
       in except_request
         (next_do (logger LogAuthenticating)
           (bind (requests_call E
                   (RequestsPost (oauth_url c) token_data
                      [(''Content-Type'', ''application/x-www-form-urlencoded'')] (timeout c))) (\<lambda>resp.
            next_do (lift (raise_for_status resp))
           (bind (lift (response_json E resp)) (\<lambda>token_info.
            bind (lift (getitem token_info ''access_token'')) (\<lambda>v.
            next_do (set_client (\<lambda>c. c\<lparr>access_token := v\<rparr>))
                    (logger LogAuthenticated)))))))
         (\<lambda>e. raise (AuthFailed e))))"

text \<open>
  The handler of \<open>make_request\<close>: it logs the failure, and the status and body when the
  exception carries a response, then re-raises.
\<close>

definition log_request_failure :: "request_exception \<Rightarrow> ('w, 'a) prog" where
  "log_request_failure e =
     next_do (logger (LogRequestFailed e))
    (next_do (case e of
                HTTPError r \<Rightarrow> next_do (logger (LogResponseStatus (status_code r)))
                                       (logger (LogResponseBody (content r)))
              | _ \<Rightarrow> ret ())
             (raise (RequestException e)))"

text \<open>The \<open>json\<close> argument \<open>data if data else None\<close>: an empty dictionary is sent as no body.\<close>

definition json_arg :: "(string \<times> pyval) list option \<Rightarrow> (string \<times> pyval) list option" where
  "json_arg data = (case data of None \<Rightarrow> None | Some d \<Rightarrow> if d \<noteq> [] then Some d else None)"

definition make_request ::
  "'w env \<Rightarrow> string \<Rightarrow> string \<Rightarrow> (string \<times> pyval) list option \<Rightarrow> ('w, pyval) prog" where
  "make_request E endpoint method data =
     next_do (bind get_client (\<lambda>c. if \<not> truthy (access_token c) then authenticate E else ret ()))
    (bind get_client (\<lambda>c.
     bind (lift (add_str (data_management_api_url c) ''/'')) (\<lambda>base.
       let full_url = urljoin E base (lstrip CHR ''/'' endpoint);
           headers = [(''Authorization'', ''Bearer '' @ format_value E (access_token c)),
                      (''Content-Type'', ''application/json'')]
       in except_request
         (bind (requests_call E (RequestsRequest method full_url headers (json_arg data) (timeout c))) (\<lambda>resp.
          bind (if status_code resp = 401
                then next_do (logger LogTokenExpired)
                    (next_do (authenticate E)
                    (bind get_client (\<lambda>c'.
                       let headers' = AList.update ''Authorization''
                             (''Bearer '' @ format_value E (access_token c')) headers
                       in requests_call E
                            (RequestsRequest method full_url headers' (json_arg data) (timeout c')))))
                else ret resp) (\<lambda>resp.
          next_do (lift (raise_for_status resp))
            (if content resp \<noteq> [] then lift (response_json E resp) else ret (PDict [])))))
         log_request_failure)))"

subsection \<open>StudentDataLoader\<close>

definition sum_bind :: "exn + 'a \<Rightarrow> ('a \<Rightarrow> exn + 'b) \<Rightarrow> exn + 'b" where
  "sum_bind r f = (case r of Inl e \<Rightarrow> Inl e | Inr x \<Rightarrow> f x)"

text \<open>\<open>row[k]\<close> on a \<open>DictReader\<close> row: \<open>KeyError\<close> when the header has no such column.\<close>

definition row_get :: "(string \<times> string) list \<Rightarrow> string \<Rightarrow> exn + string" where
  "row_get row k = (case map_of row k of None \<Rightarrow> Inl (KeyError k) | Some v \<Rightarrow> Inr v)"

text \<open>\<open>row[k] if row[k] else None\<close>.\<close>

definition row_get_optional :: "(string \<times> string) list \<Rightarrow> string \<Rightarrow> exn + string option" where
  "row_get_optional row k =
     sum_bind (row_get row k) (\<lambda>v. if v \<noteq> [] then sum_bind (row_get row k) (\<lambda>v. Inr (Some v)) else Inr None)"

definition student_of_row :: "(string \<times> string) list \<Rightarrow> exn + StudentRecord" where
  "student_of_row row =
     sum_bind (row_get row ''uniqueId'') (\<lambda>uid.
     sum_bind (row_get row ''birthDate'') (\<lambda>bd.
     sum_bind (row_get row ''firstName'') (\<lambda>fn.
     sum_bind (row_get row ''lastName'') (\<lambda>ln.
     sum_bind (row_get_optional row ''middleName'') (\<lambda>mn.
     sum_bind (row_get_optional row ''title'') (\<lambda>ti.
     sum_bind (row_get_optional row ''preferredFirstName'') (\<lambda>pfn.
     sum_bind (row_get_optional row ''preferredLastName'') (\<lambda>pln.
     sum_bind (row_get row ''enrollmentDate'') (\<lambda>ed.
     sum_bind (row_get row ''enrollmentGradeLevel'') (\<lambda>gl.
     sum_bind (row_get row ''fullTime'') (\<lambda>ft.
       Inr \<lparr> unique_id = uid, birth_date = bd, first_name = fn, last_name = ln,
             middle_name = mn, title = ti, preferred_first_name = pfn,
             preferred_last_name = pln, enrollment_date = ed,
             enrollment_grade_level = gl, full_time = ft \<rparr>)))))))))))"

fun students_of_rows :: "(string \<times> string) list list \<Rightarrow> exn + StudentRecord list" where
  "students_of_rows [] = Inr []"
| "students_of_rows (row # rows) =
     sum_bind (student_of_row row) (\<lambda>st.
     sum_bind (students_of_rows rows) (\<lambda>sts. Inr (st # sts)))"

definition read_csv_file :: "'w env \<Rightarrow> string \<Rightarrow> ('w, StudentRecord list) prog" where
  "read_csv_file E filename =
     (case sum_bind (open_csv E filename) students_of_rows of
        Inl FileNotFoundError \<Rightarrow> raise (CsvNotFound filename)
      | Inl e \<Rightarrow> raise (CsvError e)
      | Inr students \<Rightarrow>
          next_do (logger (LogReadRecords (length students) filename)) (ret students))"

text \<open>\<open>if field: payload[key] = field\<close>.\<close>

definition add_optional :: "string \<Rightarrow> string option \<Rightarrow> (string \<times> pyval) list \<Rightarrow> (string \<times> pyval) list" where
  "add_optional key field payload =
     (case field of
        None \<Rightarrow> payload
      | Some v \<Rightarrow> if v \<noteq> [] then AList.update key (PStr v) payload else payload)"

definition create_student_payload :: "StudentRecord \<Rightarrow> (string \<times> pyval) list" where
  "create_student_payload student =
     (let payload = [(''studentUniqueId'', PStr (unique_id student)),
                     (''birthDate'', PStr (birth_date student)),
                     (''firstName'', PStr (first_name student)),
                     (''lastSurName'', PStr (last_name student))];
          payload = add_optional ''middleName'' (middle_name student) payload;
          payload = add_optional ''personalTitlePrefix'' (title student) payload;
          payload = add_optional ''preferredFirstName'' (preferred_first_name student) payload;
          payload = add_optional ''preferredLastSurname'' (preferred_last_name student) payload
      in payload)"

definition create_student_school_association_payload ::
  "'w env \<Rightarrow> EdFiApiClient \<Rightarrow> StudentRecord \<Rightarrow> exn + (string \<times> pyval) list" where
  "create_student_school_association_payload E api_client student =
     (let grade_level_descriptor =
            ''uri://ed-fi.org/GradeLevelDescriptor#'' @ enrollment_grade_level student
      in case py_float E (full_time student) of
           None \<Rightarrow> Inl ValueError
         | Some full_time_equivalency \<Rightarrow>
             (case py_int E (school_id api_client) of
                None \<Rightarrow> Inl ValueError
              | Some sid \<Rightarrow> Inr
                  [(''studentReference'', PDict [(''studentUniqueId'', PStr (unique_id student))]),
                   (''schoolReference'', PDict [(''schoolId'', PInt sid)]),
                   (''entryDate'', PStr (enrollment_date student)),
                   (''entryGradeLevelDescriptor'', PStr grade_level_descriptor),
                   (''fullTimeEquivalency'', PFloat full_time_equivalency)]))"

definition load_student :: "'w env \<Rightarrow> StudentRecord \<Rightarrow> ('w, unit) prog" where
  "load_student E student =
     next_do (logger (LogLoading (unique_id student) (first_name student) (last_name student)))
    (except_any
       (bind (make_request E ''/ed-fi/students'' ''POST''
                (Some (create_student_payload student))) (\<lambda>_.
        next_do (logger (LogStudentCreated (unique_id student)))
       (bind get_client (\<lambda>c.
        bind (lift (create_student_school_association_payload E c student)) (\<lambda>association_payload.
        bind (make_request E ''/ed-fi/studentSchoolAssociations'' ''POST''
                (Some association_payload)) (\<lambda>_.
        logger (LogAssociationCreated (unique_id student))))))))
       (\<lambda>e. next_do (logger (LogLoadFailed (unique_id student) e)) (raise e)))"

text \<open>
  The \<open>for\<close> loop of \<open>load_all_students\<close> with its two counters: a record that loads
  adds one to the first, a record whose load raises adds one to the second and logs.
\<close>

fun load_loop :: "'w env \<Rightarrow> StudentRecord list \<Rightarrow> nat \<times> nat \<Rightarrow> ('w, nat \<times> nat) prog" where
  "load_loop E [] counts = ret counts"
| "load_loop E (student # students) (success_count, error_count) =
     bind (except_any
             (next_do (load_student E student) (ret (success_count + 1, error_count)))
             (\<lambda>e. next_do (logger LogContinuing) (ret (success_count, error_count + 1))))
          (load_loop E students)"

text \<open>The function has no \<open>return\<close> statement: its value is \<open>None\<close>.\<close>

definition load_all_students :: "'w env \<Rightarrow> string \<Rightarrow> ('w, pyval) prog" where
  "load_all_students E csv_filename =
     bind (read_csv_file E csv_filename) (\<lambda>students.
     bind (load_loop E students (0, 0)) (\<lambda>(success_count, error_count).
     next_do (logger (LogLoadComplete success_count error_count))
    (next_do (if error_count > 0 then logger (LogStudentsFailed error_count) else ret ())
             (ret PNone))))"

subsection \<open>Notions used in the statements\<close>

text \<open>Whether a result is the exception that \<open>discover_endpoints\<close> raises in its handler.\<close>

fun is_discover_failed :: "exn + 'a \<Rightarrow> bool" where
  "is_discover_failed (Inl (DiscoverFailed e)) = True"
| "is_discover_failed r = False"

text \<open>
  The call that \<open>make_request\<close> hands to \<open>requests.request\<close> when the client object is
  \<open>c\<close> and the joined base is \<open>base\<close>: the URL, the two headers, the body argument and
  the timeout.
\<close>

definition api_call ::
  "'w env \<Rightarrow> EdFiApiClient \<Rightarrow> string \<Rightarrow> string \<Rightarrow> string \<Rightarrow> (string \<times> pyval) list option \<Rightarrow> http_call" where
  "api_call E c base endpoint method data =
     RequestsRequest method (urljoin E (base @ ''/'') (lstrip CHR ''/'' endpoint))
       [(''Authorization'', ''Bearer '' @ format_value E (access_token c)),
        (''Content-Type'', ''application/json'')]
       (json_arg data) (timeout c)"

text \<open>The calls made to \<open>requests\<close> between two states of a run.\<close>

definition new_calls :: "'w state \<Rightarrow> 'w state \<Rightarrow> http_call list" where
  "new_calls s s' = drop (length (sent s)) (sent s')"

text \<open>
  Relations between the state before and after a piece of the program: every run of \<open>m\<close>
  relates its start to its end by \<open>R\<close>; only calls with property \<open>P\<close> were made; only
  log entries with property \<open>P\<close> were written; a field of the client object is unchanged.
\<close>

definition relates :: "('w state \<Rightarrow> 'w state \<Rightarrow> bool) \<Rightarrow> ('w, 'a) prog \<Rightarrow> bool" where
  "relates R m = (\<forall>s r s'. m s = (r, s') \<longrightarrow> R s s')"

definition sends_only :: "(http_call \<Rightarrow> bool) \<Rightarrow> 'w state \<Rightarrow> 'w state \<Rightarrow> bool" where
  "sends_only P s s' = (\<exists>pre. sent s' = sent s @ pre \<and> (\<forall>q \<in> set pre. P q))"

definition logs_only :: "(log_entry \<Rightarrow> bool) \<Rightarrow> 'w state \<Rightarrow> 'w state \<Rightarrow> bool" where
  "logs_only P s s' = (\<exists>pre. logged s' = logged s @ pre \<and> (\<forall>l \<in> set pre. P l))"

definition keeps :: "(EdFiApiClient \<Rightarrow> 'a) \<Rightarrow> 'w state \<Rightarrow> 'w state \<Rightarrow> bool" where
  "keeps f s s' = (f (client s') = f (client s))"

text \<open>No run of \<open>m\<close> ends in an exception of the \<open>RequestException\<close> family.\<close>

definition no_request_exception :: "('w, 'a) prog \<Rightarrow> bool" where
  "no_request_exception m = (\<forall>s r s' e. m s = (r, s') \<longrightarrow> r \<noteq> Inl (RequestException e))"

text \<open>The log entry that opens the loading of a student, and the test for such entries.\<close>

definition loading_entry :: "StudentRecord \<Rightarrow> log_entry" where
  "loading_entry st = LogLoading (unique_id st) (first_name st) (last_name st)"

fun is_loading :: "log_entry \<Rightarrow> bool" where
  "is_loading (LogLoading u f l) = True"
| "is_loading e = False"

text \<open>The log entries written between two states of a run.\<close>

definition new_log :: "'w state \<Rightarrow> 'w state \<Rightarrow> log_entry list" where
  "new_log s s' = drop (length (logged s)) (logged s')"

text \<open>
  The first request of \<open>load_student\<close>, the creation of the student, as it runs from the
  state in which \<open>load_student\<close> was called.
\<close>

definition primary_create :: "'w env \<Rightarrow> StudentRecord \<Rightarrow> ('w, pyval) prog" where
  "primary_create E st =
     next_do (logger (loading_entry st))
       (make_request E ''/ed-fi/students'' ''POST'' (Some (create_student_payload st)))"

text \<open>
  The states in which the loop of \<open>load_all_students\<close> starts on each record: the first
  is the state the loop is entered in, the next is where one turn of the loop leaves it.
\<close>

fun run_states :: "'w env \<Rightarrow> StudentRecord list \<Rightarrow> 'w state \<Rightarrow> 'w state list" where
  "run_states E [] s = []"
| "run_states E (st # sts) s = s # run_states E sts (snd (load_loop E [st] (0, 0) s))"

text \<open>The result of \<open>load_student\<close> for each record, in the state the loop reaches it in.\<close>

definition load_results :: "'w env \<Rightarrow> StudentRecord list \<Rightarrow> 'w state \<Rightarrow> (exn + unit) list" where
  "load_results E students s =
     map (\<lambda>(st, s'). fst (load_student E st s')) (zip students (run_states E students s))"

subsection \<open>Concrete inputs for evaluation\<close>

text \<open>
  A remote side that plays back a fixed list of outcomes, one per call, and refuses the
  connection once the list is used up; small tables for the parsers; the client and the
  student of the repository's own test script, and a student without optional fields.
\<close>

definition scripted_http :: "(string + response) list \<Rightarrow> http_call \<Rightarrow> (string + response) \<times> (string + response) list" where
  "scripted_http w c = (case w of [] \<Rightarrow> (Inl ''connection refused'', []) | r # rs \<Rightarrow> (r, rs))"

definition demo_float :: "string \<Rightarrow> pyfloat option" where
  "demo_float s = (if s = ''1'' then Some (Finite False 1 0)
                   else if s = ''0.5'' then Some (Finite False 1 (- 1)) else None)"

definition demo_int :: "string \<Rightarrow> int option" where
  "demo_int s = (if s = ''255901001'' then Some 255901001 else None)"

definition demo_json :: "string \<Rightarrow> pyval option" where
  \<open>demo_json s =
     (if s = ''{"urls": {"oauth": "https://api.test/oauth/token", "dataManagementApi": "https://api.test/data/v3"}}''
      then Some (PDict [(''urls'', PDict [(''oauth'', PStr ''https://api.test/oauth/token''),
                                          (''dataManagementApi'', PStr ''https://api.test/data/v3'')])])
      else if s = ''{"urls": {"oauth": "https://api.test/oauth/token"}}''
      then Some (PDict [(''urls'', PDict [(''oauth'', PStr ''https://api.test/oauth/token'')])])
      else if s = ''{"access_token": "t1"}'' then Some (PDict [(''access_token'', PStr ''t1'')])
      else if s = ''{"access_token": "t2"}'' then Some (PDict [(''access_token'', PStr ''t2'')])
      else if s = ''{"urls": {}}'' then Some (PDict [(''urls'', PDict [])])
      else if s = ''{"id": "604835"}'' then Some (PDict [(''id'', PStr ''604835'')])
      else None)\<close>

definition demo_env :: "(string + response) list env" where
  "demo_env = \<lparr> http = scripted_http, json_loads = demo_json, py_float = demo_float,
     py_int = demo_int, py_format = (\<lambda>v. ''None''), urljoin = (\<lambda>b e. b @ e),
     open_csv = (\<lambda>f. Inl FileNotFoundError) \<rparr>"

definition demo_client :: EdFiApiClient where
  "demo_client = EdFiApiClient_init ''https://api.test/'' ''test'' ''secret'' ''255901001'' 30"

definition diana :: StudentRecord where
  "diana = \<lparr> unique_id = ''604835'', birth_date = ''2016-09-29'', first_name = ''Diana'',
     last_name = ''Holt'', middle_name = Some ''Emily'', title = Some ''Ms'',
     preferred_first_name = None, preferred_last_name = None,
     enrollment_date = ''2021-08-23'', enrollment_grade_level = ''Ninth grade'',
     full_time = ''1'' \<rparr>"

definition bare :: StudentRecord where
  "bare = \<lparr> unique_id = ''604836'', birth_date = ''2015-01-02'', first_name = ''Omar'',
     last_name = ''Reyes'', middle_name = None, title = None,
     preferred_first_name = None, preferred_last_name = None,
     enrollment_date = ''2021-08-23'', enrollment_grade_level = ''Tenth grade'',
     full_time = ''0.5'' \<rparr>"

definition fresh :: "(string + response) list \<Rightarrow> (string + response) list state" where
  "fresh w = \<lparr> client = demo_client, world = w, sent = [], logged = [] \<rparr>"

definition ok_response :: "string \<Rightarrow> response" where
  "ok_response body = \<lparr> status_code = 200, content = body \<rparr>"

definition discovery_doc :: string where
  \<open>discovery_doc = ''{"urls": {"oauth": "https://api.test/oauth/token", "dataManagementApi": "https://api.test/data/v3"}}''\<close>

definition partial_doc :: string where
  \<open>partial_doc = ''{"urls": {"oauth": "https://api.test/oauth/token"}}''\<close>

definition token_doc :: string where
  \<open>token_doc = ''{"access_token": "t1"}''\<close>

definition token_doc2 :: string where
  \<open>token_doc2 = ''{"access_token": "t2"}''\<close>

definition empty_urls_doc :: string where
  \<open>empty_urls_doc = ''{"urls": {}}''\<close>

text \<open>A client with an active session: both endpoints discovered and a token held.\<close>

definition session :: "(string + response) list \<Rightarrow> (string + response) list state" where
  "session w =
     \<lparr> client = demo_client\<lparr> access_token := PStr ''t1'',
                              oauth_url := PStr ''https://api.test/oauth/token'',
                              data_management_api_url := PStr ''https://api.test/data/v3'' \<rparr>,
       world = w, sent = [], logged = [] \<rparr>"

definition unauthorized :: response where
  "unauthorized = \<lparr> status_code = 401, content = ''Unauthorized'' \<rparr>"

definition created_doc :: string where
  \<open>created_doc = ''{"id": "604835"}''\<close>

definition server_error :: response where
  "server_error = \<lparr> status_code = 500, content = ''Internal Server Error'' \<rparr>"

definition created :: response where
  "created = \<lparr> status_code = 201, content = [] \<rparr>"

text \<open>A CSV file with one row, the student of the test script, and an environment that has it.\<close>

definition diana_row :: "(string \<times> string) list" where
  "diana_row =
     [(''uniqueId'', ''604835''), (''birthDate'', ''2016-09-29''), (''firstName'', ''Diana''),
      (''lastName'', ''Holt''), (''middleName'', ''Emily''), (''title'', ''Ms''),
      (''preferredFirstName'', ''''), (''preferredLastName'', ''''),
      (''enrollmentDate'', ''2021-08-23''), (''enrollmentGradeLevel'', ''Ninth grade''),
      (''fullTime'', ''1'')]"

definition csv_env :: "(string + response) list env" where
  "csv_env = demo_env\<lparr> open_csv :=
     (\<lambda>f. if f = ''students.csv'' then Inr [diana_row] else Inl FileNotFoundError) \<rparr>"

section \<open>Payload construction\<close>

lemma map_of_add_optional:
  "map_of (add_optional key field payload) k =
     (case field of
        None \<Rightarrow> map_of payload k
      | Some v \<Rightarrow> if v \<noteq> [] \<and> k = key then Some (PStr v) else map_of payload k)"
  by (simp add: add_optional_def update_conv split: option.splits)

lemma add_optional_absent:
  "\<not> truthy_opt field \<Longrightarrow> add_optional key field payload = payload"
  by (cases field) (simp_all add: add_optional_def)

lemma create_student_payload_all_absent:
  "\<not> truthy_opt (middle_name st) \<Longrightarrow> \<not> truthy_opt (title st) \<Longrightarrow>
   \<not> truthy_opt (preferred_first_name st) \<Longrightarrow> \<not> truthy_opt (preferred_last_name st) \<Longrightarrow>
   create_student_payload st =
        [(''studentUniqueId'', PStr (unique_id st)), (''birthDate'', PStr (birth_date st)),
         (''firstName'', PStr (first_name st)), (''lastSurName'', PStr (last_name st))]"
  by (simp add: create_student_payload_def add_optional_absent)

lemma map_of_payload_middleName:
  "map_of (create_student_payload st) ''middleName'' =
     (case middle_name st of None \<Rightarrow> None | Some v \<Rightarrow> if v \<noteq> [] then Some (PStr v) else None)"
  by (simp add: create_student_payload_def map_of_add_optional split: option.splits)

lemma map_of_payload_personalTitlePrefix:
  "map_of (create_student_payload st) ''personalTitlePrefix'' =
     (case title st of None \<Rightarrow> None | Some v \<Rightarrow> if v \<noteq> [] then Some (PStr v) else None)"
  by (simp add: create_student_payload_def map_of_add_optional split: option.splits)

lemma map_of_payload_preferredFirstName:
  "map_of (create_student_payload st) ''preferredFirstName'' =
     (case preferred_first_name st of None \<Rightarrow> None | Some v \<Rightarrow> if v \<noteq> [] then Some (PStr v) else None)"
  by (simp add: create_student_payload_def map_of_add_optional split: option.splits)

lemma map_of_payload_preferredLastSurname:
  "map_of (create_student_payload st) ''preferredLastSurname'' =
     (case preferred_last_name st of None \<Rightarrow> None | Some v \<Rightarrow> if v \<noteq> [] then Some (PStr v) else None)"
  by (simp add: create_student_payload_def map_of_add_optional split: option.splits)

lemma map_of_payload_not_null:
  "map_of (create_student_payload st) k \<noteq> Some PNone"
  by (simp add: create_student_payload_def map_of_add_optional split: option.splits)

lemmas map_of_payload_optional =
  map_of_payload_middleName map_of_payload_personalTitlePrefix
  map_of_payload_preferredFirstName map_of_payload_preferredLastSurname

text \<open>
  The records that \<open>read_csv_file\<close> builds hold an optional field either as \<open>None\<close> or
  as a non-empty string: an empty cell is read as \<open>None\<close>.
\<close>

lemma sum_bind_InrE:
  assumes "sum_bind r f = Inr y"
  obtains x where "r = Inr x" and "f x = Inr y"
  using assms by (cases r) (simp_all add: sum_bind_def)

lemma row_get_optional_nonempty: "row_get_optional row k = Inr (Some v) \<Longrightarrow> v \<noteq> []"
  by (auto simp: row_get_optional_def sum_bind_def split: sum.splits if_splits)

lemma student_of_row_optional_nonempty:
  assumes "student_of_row row = Inr st"
  shows "middle_name st \<noteq> Some [] \<and> title st \<noteq> Some []
    \<and> preferred_first_name st \<noteq> Some [] \<and> preferred_last_name st \<noteq> Some []"
  using assms unfolding student_of_row_def
  by (elim sum_bind_InrE) (auto dest: row_get_optional_nonempty)

text \<open>
  Claim C4. When the four optional fields are all absent, \<open>create_student_payload\<close> gives
  exactly the four required keys. An optional field that is present, which in the record's
  data model and in every record read from the file is a non-empty string, appears under
  its API key with exactly that value. An absent optional field has no key at all, and no
  key of the payload ever holds \<open>None\<close>.
\<close>

theorem create_student_payload_optional_keys:
  "(middle_name st = None \<and> title st = None \<and> preferred_first_name st = None
      \<and> preferred_last_name st = None \<longrightarrow>
      create_student_payload st =
        [(''studentUniqueId'', PStr (unique_id st)), (''birthDate'', PStr (birth_date st)),
         (''firstName'', PStr (first_name st)), (''lastSurName'', PStr (last_name st))])
   \<and> (middle_name st = Some v \<and> v \<noteq> [] \<longrightarrow>
        map_of (create_student_payload st) ''middleName'' = Some (PStr v))
   \<and> (title st = Some v \<and> v \<noteq> [] \<longrightarrow>
        map_of (create_student_payload st) ''personalTitlePrefix'' = Some (PStr v))
   \<and> (preferred_first_name st = Some v \<and> v \<noteq> [] \<longrightarrow>
        map_of (create_student_payload st) ''preferredFirstName'' = Some (PStr v))
   \<and> (preferred_last_name st = Some v \<and> v \<noteq> [] \<longrightarrow>
        map_of (create_student_payload st) ''preferredLastSurname'' = Some (PStr v))
   \<and> (middle_name st = None \<longrightarrow> map_of (create_student_payload st) ''middleName'' = None)
   \<and> (title st = None \<longrightarrow> map_of (create_student_payload st) ''personalTitlePrefix'' = None)
   \<and> (preferred_first_name st = None \<longrightarrow>
        map_of (create_student_payload st) ''preferredFirstName'' = None)
   \<and> (preferred_last_name st = None \<longrightarrow>
        map_of (create_student_payload st) ''preferredLastSurname'' = None)
   \<and> map_of (create_student_payload st) k \<noteq> Some PNone"
proof -
  have absent: "middle_name st = None \<and> title st = None \<and> preferred_first_name st = None
      \<and> preferred_last_name st = None \<longrightarrow>
      create_student_payload st =
        [(''studentUniqueId'', PStr (unique_id st)), (''birthDate'', PStr (birth_date st)),
         (''firstName'', PStr (first_name st)), (''lastSurName'', PStr (last_name st))]"
    by (simp add: create_student_payload_all_absent)
  show ?thesis
    using absent by (simp add: map_of_payload_optional map_of_payload_not_null)
qed

theorem create_student_payload_optional_keys_witness:
  "create_student_payload bare =
     [(''studentUniqueId'', PStr ''604836''), (''birthDate'', PStr ''2015-01-02''),
      (''firstName'', PStr ''Omar''), (''lastSurName'', PStr ''Reyes'')]
   \<and> map_of (create_student_payload diana) ''middleName'' = Some (PStr ''Emily'')
   \<and> map_of (create_student_payload diana) ''personalTitlePrefix'' = Some (PStr ''Ms'')
   \<and> map_of (create_student_payload diana) ''preferredFirstName'' = None
   \<and> map_of (create_student_payload diana) ''preferredLastSurname'' = None"
  using create_student_payload_optional_keys [of bare "''x''" "''k''"] create_student_payload_optional_keys [of diana "''Emily''" "''k''"] create_student_payload_optional_keys [of diana "''Ms''" "''k''"]
  by (simp add: bare_def diana_def)

text \<open>
  Claim C10. An optional field that holds the empty string is left out of the payload: the
  payload is the one of the same record with that field absent, and the key is missing.
\<close>

theorem create_student_payload_empty_string_omitted:
  "create_student_payload (st\<lparr>middle_name := Some []\<rparr>) = create_student_payload (st\<lparr>middle_name := None\<rparr>)
   \<and> create_student_payload (st\<lparr>title := Some []\<rparr>) = create_student_payload (st\<lparr>title := None\<rparr>)
   \<and> create_student_payload (st\<lparr>preferred_first_name := Some []\<rparr>)
       = create_student_payload (st\<lparr>preferred_first_name := None\<rparr>)
   \<and> create_student_payload (st\<lparr>preferred_last_name := Some []\<rparr>)
       = create_student_payload (st\<lparr>preferred_last_name := None\<rparr>)
   \<and> map_of (create_student_payload (st\<lparr>middle_name := Some []\<rparr>)) ''middleName'' = None
   \<and> map_of (create_student_payload (st\<lparr>title := Some []\<rparr>)) ''personalTitlePrefix'' = None
   \<and> map_of (create_student_payload (st\<lparr>preferred_first_name := Some []\<rparr>)) ''preferredFirstName'' = None
   \<and> map_of (create_student_payload (st\<lparr>preferred_last_name := Some []\<rparr>)) ''preferredLastSurname'' = None"
  by (simp add: map_of_payload_optional) (simp add: create_student_payload_def add_optional_def)

text \<open>
  Claim C5. When \<open>float\<close> accepts the full-time flag and \<open>int\<close> accepts the school id,
  the association payload holds under \<open>fullTimeEquivalency\<close> exactly the float that
  \<open>float\<close> returned. When either conversion is refused, building the payload fails with
  the \<open>ValueError\<close> of the conversion.
\<close>

theorem association_payload_full_time_equivalency:
  "(py_float E (full_time st) = Some f \<and> py_int E (school_id c) = Some n \<longrightarrow>
      (\<exists>p. create_student_school_association_payload E c st = Inr p
           \<and> map_of p ''fullTimeEquivalency'' = Some (PFloat f)))
   \<and> (py_float E (full_time st) = None \<or> py_int E (school_id c) = None \<longrightarrow>
        create_student_school_association_payload E c st = Inl ValueError)"
  by (auto simp: create_student_school_association_payload_def split: option.splits)

theorem association_payload_full_time_equivalency_witness:
  "(\<exists>p. create_student_school_association_payload demo_env demo_client diana = Inr p
        \<and> map_of p ''fullTimeEquivalency'' = Some (PFloat (Finite False 1 0)))
   \<and> (\<exists>p. create_student_school_association_payload demo_env demo_client bare = Inr p
        \<and> map_of p ''fullTimeEquivalency'' = Some (PFloat (Finite False 1 (- 1))))
   \<and> create_student_school_association_payload demo_env demo_client (diana\<lparr>full_time := ''yes''\<rparr>)
        = Inl ValueError
   \<and> create_student_school_association_payload demo_env (demo_client\<lparr>school_id := ''12a''\<rparr>) diana
        = Inl ValueError"
  using association_payload_full_time_equivalency [of demo_env diana "Finite False 1 0" demo_client 255901001]
        association_payload_full_time_equivalency [of demo_env bare "Finite False 1 (- 1)" demo_client 255901001]
        association_payload_full_time_equivalency [of demo_env "diana\<lparr>full_time := ''yes''\<rparr>" "Finite False 1 0" demo_client 255901001]
        association_payload_full_time_equivalency [of demo_env diana "Finite False 1 0" "demo_client\<lparr>school_id := ''12a''\<rparr>" 255901001]
  by (simp add: demo_env_def demo_client_def EdFiApiClient_init_def diana_def bare_def
        demo_float_def demo_int_def)

text \<open>
  Claim C6. The \<open>entryGradeLevelDescriptor\<close> of every association payload is the fixed
  prefix \<open>uri://ed-fi.org/GradeLevelDescriptor#\<close> followed by the record's grade-level
  text, character for character: after the 37 characters of the prefix comes the text itself.
\<close>

theorem association_payload_grade_level_descriptor:
  "create_student_school_association_payload E c st = Inr p \<Longrightarrow>
     map_of p ''entryGradeLevelDescriptor''
       = Some (PStr (''uri://ed-fi.org/GradeLevelDescriptor#'' @ enrollment_grade_level st))
     \<and> (\<exists>d. map_of p ''entryGradeLevelDescriptor'' = Some (PStr d)
           \<and> take 37 d = ''uri://ed-fi.org/GradeLevelDescriptor#''
           \<and> drop 37 d = enrollment_grade_level st)"
  by (auto simp: create_student_school_association_payload_def split: option.splits)

theorem association_payload_grade_level_descriptor_witness:
  "create_student_school_association_payload demo_env demo_client diana
     = Inr [(''studentReference'', PDict [(''studentUniqueId'', PStr ''604835'')]),
            (''schoolReference'', PDict [(''schoolId'', PInt 255901001)]),
            (''entryDate'', PStr ''2021-08-23''),
            (''entryGradeLevelDescriptor'', PStr ''uri://ed-fi.org/GradeLevelDescriptor#Ninth grade''),
            (''fullTimeEquivalency'', PFloat (Finite False 1 0))]
   \<and> map_of [(''studentReference'', PDict [(''studentUniqueId'', PStr ''604835'')]),
            (''schoolReference'', PDict [(''schoolId'', PInt 255901001)]),
            (''entryDate'', PStr ''2021-08-23''),
            (''entryGradeLevelDescriptor'', PStr ''uri://ed-fi.org/GradeLevelDescriptor#Ninth grade''),
            (''fullTimeEquivalency'', PFloat (Finite False 1 0))] ''entryGradeLevelDescriptor''
       = Some (PStr (''uri://ed-fi.org/GradeLevelDescriptor#'' @ ''Ninth grade''))"
proof -
  have run: "create_student_school_association_payload demo_env demo_client diana
     = Inr [(''studentReference'', PDict [(''studentUniqueId'', PStr ''604835'')]),
            (''schoolReference'', PDict [(''schoolId'', PInt 255901001)]),
            (''entryDate'', PStr ''2021-08-23''),
            (''entryGradeLevelDescriptor'', PStr ''uri://ed-fi.org/GradeLevelDescriptor#Ninth grade''),
            (''fullTimeEquivalency'', PFloat (Finite False 1 0))]"
    by (simp add: create_student_school_association_payload_def demo_env_def demo_client_def
          EdFiApiClient_init_def diana_def demo_float_def demo_int_def)
  from association_payload_grade_level_descriptor [OF run] run show ?thesis by (simp add: diana_def)
qed

section \<open>Endpoint discovery\<close>

lemmas prog_defs = ret_def raise_def bind_def next_do_def except_request_def except_any_def
  lift_def logger_def get_client_def set_client_def

lemmas demo_defs = fresh_def demo_client_def EdFiApiClient_init_def demo_env_def
  scripted_http_def ok_response_def discovery_doc_def partial_doc_def token_doc_def token_doc2_def empty_urls_doc_def
  demo_json_def rstrip_def

lemmas discover_defs = discover_endpoints_def prog_defs requests_call_def raise_for_status_def
  response_json_def

lemma getitem_error: "getitem v k = Inl e \<Longrightarrow> e = KeyError k \<or> e = TypeError"
  by (cases v) (auto split: option.splits)

text \<open>
  Claim C9. When the discovery document has \<open>urls.oauth\<close> but no
  \<open>urls.dataManagementApi\<close>, \<open>discover_endpoints\<close> raises, and the client it leaves
  behind already has \<open>oauth_url\<close> set to the discovered value while
  \<open>data_management_api_url\<close> is what it was before the call.
\<close>

theorem discover_endpoints_partial_update:
  assumes "\<not> (truthy (oauth_url (client s)) \<and> truthy (data_management_api_url (client s)))"
    and "http E (world s) (RequestsGet (base_url (client s)) (timeout (client s))) = (Inr resp, w')"
    and "\<not> (400 \<le> status_code resp \<and> status_code resp < 600)"
    and "json_loads E (content resp) = Some (PDict doc)"
    and "map_of doc ''urls'' = Some (PDict urls)"
    and "map_of urls ''oauth'' = Some v"
    and "map_of urls ''dataManagementApi'' = None"
  shows "discover_endpoints E s =
    (Inl (KeyError ''dataManagementApi''),
     s\<lparr> world := w',
        sent := sent s @ [RequestsGet (base_url (client s)) (timeout (client s))],
        logged := logged s @ [LogDiscovering (base_url (client s))],
        client := (client s)\<lparr>oauth_url := v\<rparr> \<rparr>)"
  using assms by (simp add: discover_defs)

theorem discover_endpoints_partial_update_witness:
  "fst (discover_endpoints demo_env (fresh [Inr (ok_response partial_doc)]))
     = Inl (KeyError ''dataManagementApi'')
   \<and> oauth_url (client (snd (discover_endpoints demo_env (fresh [Inr (ok_response partial_doc)]))))
     = PStr ''https://api.test/oauth/token''
   \<and> data_management_api_url
       (client (snd (discover_endpoints demo_env (fresh [Inr (ok_response partial_doc)])))) = PNone"
proof -
  have "discover_endpoints demo_env (fresh [Inr (ok_response partial_doc)]) =
    (Inl (KeyError ''dataManagementApi''),
     (fresh [Inr (ok_response partial_doc)])\<lparr> world := [],
        sent := sent (fresh [Inr (ok_response partial_doc)])
                 @ [RequestsGet (base_url (client (fresh [Inr (ok_response partial_doc)])))
                      (timeout (client (fresh [Inr (ok_response partial_doc)])))],
        logged := logged (fresh [Inr (ok_response partial_doc)])
                 @ [LogDiscovering (base_url (client (fresh [Inr (ok_response partial_doc)])))],
        client := (client (fresh [Inr (ok_response partial_doc)]))
                    \<lparr>oauth_url := PStr ''https://api.test/oauth/token''\<rparr> \<rparr>)"
    by (rule discover_endpoints_partial_update
          [where resp = "ok_response partial_doc"
             and doc = "[(''urls'', PDict [(''oauth'', PStr ''https://api.test/oauth/token'')])]"
             and urls = "[(''oauth'', PStr ''https://api.test/oauth/token'')]"])
       (simp_all add: demo_defs)
  then show ?thesis by (simp add: demo_defs)
qed

text \<open>
  Claim C7, as amended. With no endpoints cached, \<open>discover_endpoints\<close> fails with its
  own exception, \<open>Failed to discover API endpoints\<close>, when the request raises, when the
  status is in 400..599, and when the body is not JSON. When the body is JSON but a lookup
  of \<open>urls\<close>, \<open>oauth\<close> or \<open>dataManagementApi\<close> fails, the call fails as well, with the
  \<open>KeyError\<close> or \<open>TypeError\<close> of that lookup itself.
\<close>

theorem discover_endpoints_failure_modes:
  assumes "\<not> (truthy (oauth_url (client s)) \<and> truthy (data_management_api_url (client s)))"
  shows
   "(http E (world s) (RequestsGet (base_url (client s)) (timeout (client s))) = (Inl t, w')
       \<longrightarrow> fst (discover_endpoints E s) = Inl (DiscoverFailed (Transport t)))
  \<and> (http E (world s) (RequestsGet (base_url (client s)) (timeout (client s))) = (Inr resp, w')
       \<longrightarrow>
       (400 \<le> status_code resp \<and> status_code resp < 600
          \<longrightarrow> fst (discover_endpoints E s) = Inl (DiscoverFailed (HTTPError resp)))
     \<and> (\<not> (400 \<le> status_code resp \<and> status_code resp < 600)
          \<longrightarrow>
          (json_loads E (content resp) = None
             \<longrightarrow> fst (discover_endpoints E s) = Inl (DiscoverFailed JSONDecodeError))
        \<and> (json_loads E (content resp) = Some doc
             \<longrightarrow>
             (getitem doc ''urls'' = Inl e
                \<longrightarrow> fst (discover_endpoints E s) = Inl e
                    \<and> (e = KeyError ''urls'' \<or> e = TypeError))
           \<and> (getitem doc ''urls'' = Inr u \<and> getitem u ''oauth'' = Inl e
                \<longrightarrow> fst (discover_endpoints E s) = Inl e
                    \<and> (e = KeyError ''oauth'' \<or> e = TypeError))
           \<and> (getitem doc ''urls'' = Inr u \<and> getitem u ''oauth'' = Inr v
                \<and> getitem u ''dataManagementApi'' = Inl e
                \<longrightarrow> fst (discover_endpoints E s) = Inl e
                    \<and> (e = KeyError ''dataManagementApi'' \<or> e = TypeError)))))"
  using assms
  by (auto simp: discover_defs dest: getitem_error)

theorem discover_endpoints_failure_modes_witness:
  "fst (discover_endpoints demo_env (fresh [])) = Inl (DiscoverFailed (Transport ''connection refused''))
   \<and> fst (discover_endpoints demo_env (fresh [Inr \<lparr>status_code = 404, content = ''Not Found''\<rparr>]))
       = Inl (DiscoverFailed (HTTPError \<lparr>status_code = 404, content = ''Not Found''\<rparr>))
   \<and> fst (discover_endpoints demo_env (fresh [Inr (ok_response ''<html>'')]))
       = Inl (DiscoverFailed JSONDecodeError)
   \<and> fst (discover_endpoints demo_env (fresh [Inr (ok_response token_doc)])) = Inl (KeyError ''urls'')
   \<and> fst (discover_endpoints demo_env (fresh [Inr (ok_response empty_urls_doc)])) = Inl (KeyError ''oauth'')
   \<and> fst (discover_endpoints demo_env (fresh [Inr (ok_response partial_doc)]))
       = Inl (KeyError ''dataManagementApi'')"
proof -
  have a: "fst (discover_endpoints demo_env (fresh []))
      = Inl (DiscoverFailed (Transport ''connection refused''))"
    using discover_endpoints_failure_modes
      [where s = "fresh []" and E = demo_env and t = "''connection refused''" and w' = "[]"
         and resp = "ok_response []" and doc = PNone and e = TypeError and u = PNone and v = PNone]
    by (simp add: demo_defs)
  have b: "fst (discover_endpoints demo_env (fresh [Inr \<lparr>status_code = 404, content = ''Not Found''\<rparr>]))
       = Inl (DiscoverFailed (HTTPError \<lparr>status_code = 404, content = ''Not Found''\<rparr>))"
    using discover_endpoints_failure_modes
      [where s = "fresh [Inr \<lparr>status_code = 404, content = ''Not Found''\<rparr>]" and E = demo_env
         and t = "[]" and w' = "[]" and resp = "\<lparr>status_code = 404, content = ''Not Found''\<rparr>"
         and doc = PNone and e = TypeError and u = PNone and v = PNone]
    by (simp add: demo_defs)
  have c: "fst (discover_endpoints demo_env (fresh [Inr (ok_response ''<html>'')]))
       = Inl (DiscoverFailed JSONDecodeError)"
    using discover_endpoints_failure_modes
      [where s = "fresh [Inr (ok_response ''<html>'')]" and E = demo_env
         and t = "[]" and w' = "[]" and resp = "ok_response ''<html>''"
         and doc = PNone and e = TypeError and u = PNone and v = PNone]
    by (simp add: demo_defs)
  have d: "fst (discover_endpoints demo_env (fresh [Inr (ok_response token_doc)])) = Inl (KeyError ''urls'')"
    using discover_endpoints_failure_modes
      [where s = "fresh [Inr (ok_response token_doc)]" and E = demo_env
         and t = "[]" and w' = "[]" and resp = "ok_response token_doc"
         and doc = "PDict [(''access_token'', PStr ''t1'')]" and e = "KeyError ''urls''"
         and u = PNone and v = PNone]
    by (simp add: demo_defs)
  have e: "fst (discover_endpoints demo_env (fresh [Inr (ok_response empty_urls_doc)]))
       = Inl (KeyError ''oauth'')"
    using discover_endpoints_failure_modes
      [where s = "fresh [Inr (ok_response empty_urls_doc)]" and E = demo_env
         and t = "[]" and w' = "[]" and resp = "ok_response empty_urls_doc"
         and doc = "PDict [(''urls'', PDict [])]" and e = "KeyError ''oauth''"
         and u = "PDict []" and v = PNone]
    by (simp add: demo_defs)
  have f: "fst (discover_endpoints demo_env (fresh [Inr (ok_response partial_doc)]))
       = Inl (KeyError ''dataManagementApi'')"
    using discover_endpoints_failure_modes
      [where s = "fresh [Inr (ok_response partial_doc)]" and E = demo_env
         and t = "[]" and w' = "[]" and resp = "ok_response partial_doc"
         and doc = "PDict [(''urls'', PDict [(''oauth'', PStr ''https://api.test/oauth/token'')])]"
         and e = "KeyError ''dataManagementApi''"
         and u = "PDict [(''oauth'', PStr ''https://api.test/oauth/token'')]"
         and v = "PStr ''https://api.test/oauth/token''"]
    by (simp add: demo_defs)
  from a b c d e f show ?thesis by simp
qed

text \<open>
  Claim C7 as stated fails: a discovery document without \<open>urls.dataManagementApi\<close> makes
  the call raise \<open>KeyError\<close>, which is not the discovery exception.
\<close>

theorem discover_endpoints_missing_field_counterexample:
  "fst (discover_endpoints demo_env (fresh [Inr (ok_response partial_doc)]))
     = Inl (KeyError ''dataManagementApi'')
   \<and> \<not> is_discover_failed (fst (discover_endpoints demo_env (fresh [Inr (ok_response partial_doc)])))"
  by (simp add: discover_defs demo_defs)

section \<open>Reasoning about runs\<close>

lemma relatesD: "relates R m \<Longrightarrow> m s = (r, s') \<Longrightarrow> R s s'"
  by (simp add: relates_def)

lemma relates_ret: "reflp R \<Longrightarrow> relates R (ret x)"
  by (auto simp: relates_def ret_def reflp_def)

lemma relates_raise: "reflp R \<Longrightarrow> relates R (raise e)"
  by (auto simp: relates_def raise_def reflp_def)

lemma relates_lift: "reflp R \<Longrightarrow> relates R (lift r)"
  by (auto simp: relates_def lift_def reflp_def)

lemma relates_get_client: "reflp R \<Longrightarrow> relates R get_client"
  by (auto simp: relates_def get_client_def reflp_def)

lemma relates_bind:
  assumes "transp R" and "relates R m" and "\<And>x. relates R (f x)"
  shows "relates R (bind m f)"
  unfolding relates_def
proof (intro allI impI)
  fix s r s' assume run: "bind m f s = (r, s')"
  obtain a s1 where m: "m s = (a, s1)" by (cases "m s")
  then have R1: "R s s1" using assms(2) by (simp add: relates_def)
  show "R s s'"
  proof (cases a)
    case (Inl e)
    with run m have "s' = s1" by (simp add: bind_def)
    with R1 show ?thesis by simp
  next
    case (Inr x)
    with run m have "f x s1 = (r, s')" by (simp add: bind_def)
    then have "R s1 s'" using assms(3) [of x] by (simp add: relates_def)
    with R1 assms(1) show ?thesis by (blast dest: transpD)
  qed
qed

lemma relates_next_do:
  "transp R \<Longrightarrow> relates R m \<Longrightarrow> relates R n \<Longrightarrow> relates R (next_do m n)"
  by (simp add: next_do_def relates_bind)

lemma relates_except_any:
  assumes "transp R" and "relates R m" and "\<And>e. relates R (h e)"
  shows "relates R (except_any m h)"
  unfolding relates_def
proof (intro allI impI)
  fix s r s' assume run: "except_any m h s = (r, s')"
  obtain a s1 where m: "m s = (a, s1)" by (cases "m s")
  then have R1: "R s s1" using assms(2) by (simp add: relates_def)
  show "R s s'"
  proof (cases a)
    case (Inl e)
    with run m have "h e s1 = (r, s')" by (simp add: except_any_def)
    then have "R s1 s'" using assms(3) [of e] by (simp add: relates_def)
    with R1 assms(1) show ?thesis by (blast dest: transpD)
  next
    case (Inr x)
    with run m have "s' = s1" by (simp add: except_any_def)
    with R1 show ?thesis by simp
  qed
qed

lemma except_request_eq:
  "except_request m h =
     except_any m (\<lambda>e. case e of RequestException x \<Rightarrow> h x | _ \<Rightarrow> raise e)"
  by (rule ext) (simp add: except_request_def except_any_def raise_def
        split: prod.splits sum.splits exn.splits)

lemma relates_except_request:
  assumes "transp R" and "reflp R" and "relates R m" and "\<And>e. relates R (h e)"
  shows "relates R (except_request m h)"
  unfolding except_request_eq
proof (rule relates_except_any [OF assms(1) assms(3)])
  fix e show "relates R (case e of RequestException x \<Rightarrow> h x | _ \<Rightarrow> raise e)"
    using assms(2, 4) by (cases e) (simp_all add: relates_raise)
qed

lemma relates_if:
  "relates R a \<Longrightarrow> relates R b \<Longrightarrow> relates R (if c then a else b)"
  by simp

lemmas relates_intros = relates_bind relates_next_do relates_except_request
  relates_except_any relates_if relates_ret relates_raise relates_lift relates_get_client

lemma reflp_sends_only [simp]: "reflp (sends_only P)"
  by (simp add: reflp_def sends_only_def)

lemma transp_sends_only [simp]: "transp (sends_only P)"
  by (rule transpI) (auto simp: sends_only_def)

lemma reflp_logs_only [simp]: "reflp (logs_only P)"
  by (simp add: reflp_def logs_only_def)

lemma transp_logs_only [simp]: "transp (logs_only P)"
  by (rule transpI) (auto simp: logs_only_def)

lemma reflp_keeps [simp]: "reflp (keeps f)"
  by (simp add: reflp_def keeps_def)

lemma transp_keeps [simp]: "transp (keeps f)"
  by (rule transpI) (simp add: keeps_def)

lemma sends_only_logger [simp]: "relates (sends_only P) (logger l)"
  by (auto simp: relates_def logger_def sends_only_def)

lemma sends_only_set_client [simp]: "relates (sends_only P) (set_client f)"
  by (auto simp: relates_def set_client_def sends_only_def)

lemma sends_only_requests_call [simp]: "P c \<Longrightarrow> relates (sends_only P) (requests_call E c)"
  by (auto simp: relates_def requests_call_def sends_only_def split: prod.splits sum.splits)

lemma keeps_logger [simp]: "relates (keeps f) (logger l)"
  by (auto simp: relates_def logger_def keeps_def)

lemma keeps_requests_call [simp]: "relates (keeps f) (requests_call E c)"
  by (auto simp: relates_def requests_call_def keeps_def split: prod.splits sum.splits)

lemma keeps_set_client: "(\<And>c. f (g c) = f c) \<Longrightarrow> relates (keeps f) (set_client g)"
  by (auto simp: relates_def set_client_def keeps_def)

lemma logs_only_logger [simp]: "P l \<Longrightarrow> relates (logs_only P) (logger l)"
  by (auto simp: relates_def logger_def logs_only_def)

lemma logs_only_set_client [simp]: "relates (logs_only P) (set_client f)"
  by (auto simp: relates_def set_client_def logs_only_def)

lemma logs_only_requests_call [simp]: "relates (logs_only P) (requests_call E c)"
  by (auto simp: relates_def requests_call_def logs_only_def split: prod.splits sum.splits)

lemma sends_only_mono: "sends_only P s s' \<Longrightarrow> (\<And>q. P q \<Longrightarrow> Q q) \<Longrightarrow> sends_only Q s s'"
  by (auto simp: sends_only_def)

lemma no_request_exception_ret: "no_request_exception (ret x)"
  by (simp add: no_request_exception_def ret_def)

lemma no_request_exception_bind:
  "no_request_exception m \<Longrightarrow> (\<And>x. no_request_exception (f x)) \<Longrightarrow> no_request_exception (bind m f)"
  unfolding no_request_exception_def bind_def
  by (auto split: prod.splits sum.splits)

lemma no_request_exception_next_do:
  "no_request_exception m \<Longrightarrow> no_request_exception n \<Longrightarrow> no_request_exception (next_do m n)"
  by (simp add: next_do_def no_request_exception_bind)

lemma no_request_exception_get_client: "no_request_exception get_client"
  by (simp add: no_request_exception_def get_client_def)

lemma no_request_exception_handled:
  "(\<And>e. no_request_exception (h e)) \<Longrightarrow> no_request_exception (except_request m h)"
  unfolding no_request_exception_def except_request_def
  by (auto split: prod.splits sum.splits exn.splits)

lemma no_request_exception_raise:
  "(\<And>e. x \<noteq> RequestException e) \<Longrightarrow> no_request_exception (raise x)"
  by (simp add: no_request_exception_def raise_def)

section \<open>Authentication and requests\<close>

lemma token_post_not_api: "is_token_post q \<Longrightarrow> \<not> is_api_request q"
  by (cases q) simp_all

lemma discover_endpoints_sends:
  "relates (sends_only (\<lambda>q. \<not> is_api_request q \<and> \<not> is_token_post q)) (discover_endpoints E)"
  unfolding discover_endpoints_def
  by (intro relates_intros) simp_all

lemma discover_endpoints_keeps_timeout: "relates (keeps timeout) (discover_endpoints E)"
  unfolding discover_endpoints_def
  by (intro relates_intros keeps_set_client) simp_all

lemma discover_endpoints_keeps_access_token: "relates (keeps access_token) (discover_endpoints E)"
  unfolding discover_endpoints_def
  by (intro relates_intros keeps_set_client) simp_all

lemma discover_endpoints_no_request_exception: "no_request_exception (discover_endpoints E)"
  unfolding discover_endpoints_def
  by (intro no_request_exception_bind no_request_exception_get_client)
     (simp add: no_request_exception_ret no_request_exception_handled no_request_exception_raise)

lemma authenticate_no_request_exception: "no_request_exception (authenticate E)"
  unfolding authenticate_def Let_def
  by (intro no_request_exception_next_do no_request_exception_bind no_request_exception_get_client
        discover_endpoints_no_request_exception no_request_exception_handled
        no_request_exception_raise) simp

lemma authenticate_keeps_timeout: "relates (keeps timeout) (authenticate E)"
  unfolding authenticate_def Let_def
  by (intro relates_intros keeps_set_client discover_endpoints_keeps_timeout) simp_all

lemma authenticate_calls:
  assumes "authenticate E s = (r, s')"
  shows "\<exists>pre. sent s' = sent s @ pre \<and> (\<forall>q \<in> set pre. \<not> is_api_request q)
          \<and> length (filter is_token_post pre) \<le> 1
          \<and> (r = Inr () \<longrightarrow> length (filter is_token_post pre) = 1)"
proof -
  obtain r0 s0 where d: "discover_endpoints E s = (r0, s0)" by (cases "discover_endpoints E s")
  from relatesD [OF discover_endpoints_sends d] obtain pre0 where
    p0: "sent s0 = sent s @ pre0" "\<forall>q \<in> set pre0. \<not> is_api_request q \<and> \<not> is_token_post q"
    by (auto simp: sends_only_def)
  have f0: "filter is_token_post pre0 = []" using p0(2) by (simp add: filter_empty_conv)
  show ?thesis
  proof (cases r0)
    case (Inl e)
    with d assms have "s' = s0" "r = Inl e"
      by (simp_all add: authenticate_def next_do_def bind_def)
    with p0 f0 show ?thesis by auto
  next
    case (Inr u)
    with d assms have "\<exists>c. sent s' = sent s0 @ [c] \<and> is_token_post c"
      by (auto simp: authenticate_def prog_defs requests_call_def raise_for_status_def
            response_json_def Let_def
          split: if_splits prod.splits sum.splits option.splits exn.splits)
    then obtain c where c: "sent s' = sent s0 @ [c]" "is_token_post c" by blast
    have "sent s' = sent s @ (pre0 @ [c])" using c p0 by simp
    moreover have "\<forall>q \<in> set (pre0 @ [c]). \<not> is_api_request q"
      using p0(2) c(2) token_post_not_api by auto
    moreover have "length (filter is_token_post (pre0 @ [c])) = 1" using f0 c(2) by simp
    ultimately show ?thesis by (metis le_refl)
  qed
qed

lemmas request_defs = make_request_def prog_defs requests_call_def raise_for_status_def
  response_json_def api_call_def log_request_failure_def Let_def

lemma authenticate_not_request_exception:
  "authenticate E s = (Inl e, s') \<Longrightarrow> e \<noteq> RequestException x"
  using authenticate_no_request_exception [of E]
  by (auto simp: no_request_exception_def)

lemma make_request_reauth_fails:
  assumes ready: "truthy (access_token (client s)) \<and> s0 = s
             \<or> \<not> truthy (access_token (client s)) \<and> authenticate E s = (Inr (), s0)"
    and base: "data_management_api_url (client s0) = PStr base"
    and first: "http E (world s0) (api_call E (client s0) base endpoint method data) = (Inr resp, w1)"
    and expired: "status_code resp = 401"
    and reauth: "authenticate E
                   (s0\<lparr>world := w1,
                       sent := sent s0 @ [api_call E (client s0) base endpoint method data],
                       logged := logged s0 @ [LogTokenExpired]\<rparr>) = (Inl e, s2)"
  shows "make_request E endpoint method data s = (Inl e, s2)"
proof -
  have ne: "case e of RequestException x \<Rightarrow> False | _ \<Rightarrow> True"
    using authenticate_not_request_exception [OF reauth] by (cases e) auto
  from ready show ?thesis
  proof
    assume "truthy (access_token (client s)) \<and> s0 = s"
    with base first expired reauth ne show ?thesis
      by (cases e) (simp_all add: request_defs)
  next
    assume "\<not> truthy (access_token (client s)) \<and> authenticate E s = (Inr (), s0)"
    with base first expired reauth ne show ?thesis
      by (cases e) (simp_all add: request_defs)
  qed
qed

lemma make_request_reauth_succeeds:
  assumes ready: "truthy (access_token (client s)) \<and> s0 = s
             \<or> \<not> truthy (access_token (client s)) \<and> authenticate E s = (Inr (), s0)"
    and base: "data_management_api_url (client s0) = PStr base"
    and first: "http E (world s0) (api_call E (client s0) base endpoint method data) = (Inr resp, w1)"
    and expired: "status_code resp = 401"
    and reauth: "authenticate E
                   (s0\<lparr>world := w1,
                       sent := sent s0 @ [api_call E (client s0) base endpoint method data],
                       logged := logged s0 @ [LogTokenExpired]\<rparr>) = (Inr (), s2)"
  shows "make_request E endpoint method data s =
    (case http E (world s2) (api_call E (client s2) base endpoint method data) of
       (Inl t, w3) \<Rightarrow>
         (Inl (RequestException (Transport t)),
          s2\<lparr>world := w3,
             sent := sent s2 @ [api_call E (client s2) base endpoint method data],
             logged := logged s2 @ [LogRequestFailed (Transport t)]\<rparr>)
     | (Inr resp2, w3) \<Rightarrow>
         if 400 \<le> status_code resp2 \<and> status_code resp2 < 600
         then (Inl (RequestException (HTTPError resp2)),
               s2\<lparr>world := w3,
                  sent := sent s2 @ [api_call E (client s2) base endpoint method data],
                  logged := logged s2 @ [LogRequestFailed (HTTPError resp2),
                              LogResponseStatus (status_code resp2),
                              LogResponseBody (content resp2)]\<rparr>)
         else if content resp2 = []
         then (Inr (PDict []),
               s2\<lparr>world := w3,
                  sent := sent s2 @ [api_call E (client s2) base endpoint method data]\<rparr>)
         else (case json_loads E (content resp2) of
                 None \<Rightarrow>
                   (Inl (RequestException JSONDecodeError),
                    s2\<lparr>world := w3,
                       sent := sent s2 @ [api_call E (client s2) base endpoint method data],
                       logged := logged s2 @ [LogRequestFailed JSONDecodeError]\<rparr>)
               | Some v \<Rightarrow>
                   (Inr v,
                    s2\<lparr>world := w3,
                       sent := sent s2 @ [api_call E (client s2) base endpoint method data]\<rparr>)))"
  using ready
proof
  assume "truthy (access_token (client s)) \<and> s0 = s"
  with base first expired reauth show ?thesis
    by (simp add: request_defs split: prod.splits sum.splits option.splits)
next
  assume "\<not> truthy (access_token (client s)) \<and> authenticate E s = (Inr (), s0)"
  with base first expired reauth show ?thesis
    by (simp add: request_defs split: prod.splits sum.splits option.splits)
qed

lemmas run_defs = request_defs authenticate_def discover_endpoints_def json_arg_def
  format_value_def lstrip_def create_student_payload_def add_optional_def

lemmas auth_defs = authenticate_def discover_endpoints_def prog_defs requests_call_def
  raise_for_status_def response_json_def api_call_def Let_def

lemmas input_defs = demo_defs session_def unauthorized_def created_doc_def bare_def diana_def
  demo_float_def demo_int_def

lemma api_call_is_api [simp]: "is_api_request (api_call E c base endpoint method data)"
  by (simp add: api_call_def)

lemma api_call_not_token_post [simp]: "\<not> is_token_post (api_call E c base endpoint method data)"
  by (simp add: api_call_def)

lemma new_calls_append [simp]: "sent s' = sent s @ pre \<Longrightarrow> new_calls s s' = pre"
  by (simp add: new_calls_def)

lemma calls_after_reauth:
  assumes reauth: "authenticate E (s0\<lparr>world := w1, sent := sent s0 @ [c1], logged := l1\<rparr>) = (r, s2)"
    and c1: "is_api_request c1" "\<not> is_token_post c1"
  shows "\<exists>pre. sent s2 = sent s0 @ c1 # pre \<and> filter is_api_request pre = []
           \<and> length (filter is_token_post pre) \<le> 1
           \<and> (r = Inr () \<longrightarrow> length (filter is_token_post pre) = 1)"
proof -
  from authenticate_calls [OF reauth] obtain pre where
    pre: "sent s2 = (sent s0 @ [c1]) @ pre" "\<forall>q \<in> set pre. \<not> is_api_request q"
      "length (filter is_token_post pre) \<le> 1"
      "r = Inr () \<longrightarrow> length (filter is_token_post pre) = 1"
    by auto
  from pre(2) have "filter is_api_request pre = []" by (simp add: filter_empty_conv)
  with pre show ?thesis by auto
qed

lemma make_request_retry_sent:
  assumes ready: "truthy (access_token (client s)) \<and> s0 = s
             \<or> \<not> truthy (access_token (client s)) \<and> authenticate E s = (Inr (), s0)"
    and base: "data_management_api_url (client s0) = PStr base"
    and first: "http E (world s0) (api_call E (client s0) base endpoint method data) = (Inr resp, w1)"
    and expired: "status_code resp = 401"
    and reauth: "authenticate E
                   (s0\<lparr>world := w1,
                       sent := sent s0 @ [api_call E (client s0) base endpoint method data],
                       logged := logged s0 @ [LogTokenExpired]\<rparr>) = (Inr (), s2)"
  shows "sent (snd (make_request E endpoint method data s))
           = sent s2 @ [api_call E (client s2) base endpoint method data]"
  unfolding make_request_reauth_succeeds [OF assms]
  by (simp split: prod.splits sum.splits option.splits)

text \<open>
  Claim C1, as amended. Take a call of \<open>make_request\<close> whose request, sent from the state
  \<open>s0\<close> reached once a token is held, is answered with status 401. The client then calls
  \<open>authenticate\<close> once. If that call raises, its exception is the result of
  \<open>make_request\<close> and the first request stays the only one sent. If it returns, exactly
  one more request is sent: the same method, URL, body and timeout with the
  \<open>Authorization\<close> header of the refreshed token, and one token request lies between the
  two. A retry that is answered outside 400..599 gives its parsed body, or an empty
  dictionary for an empty body; a retry answered in 400..599, a second 401 included, or
  failing in transport, raises that failure, and nothing further is sent.
\<close>

theorem make_request_token_expired:
  assumes ready: "truthy (access_token (client s)) \<and> s0 = s
             \<or> \<not> truthy (access_token (client s)) \<and> authenticate E s = (Inr (), s0)"
    and base: "data_management_api_url (client s0) = PStr base"
    and first: "http E (world s0) (api_call E (client s0) base endpoint method data) = (Inr resp, w1)"
    and expired: "status_code resp = 401"
    and reauth: "authenticate E
                   (s0\<lparr>world := w1,
                       sent := sent s0 @ [api_call E (client s0) base endpoint method data],
                       logged := logged s0 @ [LogTokenExpired]\<rparr>) = (r, s2)"
  shows
   "(\<forall>e. r = Inl e \<longrightarrow>
        make_request E endpoint method data s = (Inl e, s2)
      \<and> filter is_api_request (new_calls s0 s2)
          = [api_call E (client s0) base endpoint method data]
      \<and> length (filter is_token_post (new_calls s0 s2)) \<le> 1)
  \<and> (r = Inr () \<longrightarrow>
        filter is_api_request (new_calls s0 (snd (make_request E endpoint method data s)))
          = [api_call E (client s0) base endpoint method data,
             api_call E (client s2) base endpoint method data]
      \<and> timeout (client s2) = timeout (client s0)
      \<and> length (filter is_token_post (new_calls s0 (snd (make_request E endpoint method data s)))) = 1
      \<and> (http E (world s2) (api_call E (client s2) base endpoint method data) = (Inl t, w3)
           \<longrightarrow> fst (make_request E endpoint method data s) = Inl (RequestException (Transport t)))
      \<and> (http E (world s2) (api_call E (client s2) base endpoint method data) = (Inr resp2, w3)
           \<longrightarrow>
           (400 \<le> status_code resp2 \<and> status_code resp2 < 600
              \<longrightarrow> fst (make_request E endpoint method data s)
                    = Inl (RequestException (HTTPError resp2)))
         \<and> (\<not> (400 \<le> status_code resp2 \<and> status_code resp2 < 600) \<and> content resp2 = []
              \<longrightarrow> fst (make_request E endpoint method data s) = Inr (PDict []))
         \<and> (\<not> (400 \<le> status_code resp2 \<and> status_code resp2 < 600) \<and> content resp2 \<noteq> []
              \<longrightarrow> fst (make_request E endpoint method data s) = response_json E resp2)))"
proof (intro conjI allI impI)
  fix e assume r: "r = Inl e"
  from make_request_reauth_fails [OF ready base first expired reauth [unfolded r]]
  show "make_request E endpoint method data s = (Inl e, s2)" .
  from calls_after_reauth [OF reauth] obtain pre where
    pre: "sent s2 = sent s0 @ api_call E (client s0) base endpoint method data # pre"
      "filter is_api_request pre = []" "length (filter is_token_post pre) \<le> 1"
    by auto
  from pre show "filter is_api_request (new_calls s0 s2)
          = [api_call E (client s0) base endpoint method data]"
    by simp
  from pre show "length (filter is_token_post (new_calls s0 s2)) \<le> 1" by simp
next
  assume r: "r = Inr ()"
  note ok = reauth [unfolded r]
  from calls_after_reauth [OF reauth] r obtain pre where
    pre: "sent s2 = sent s0 @ api_call E (client s0) base endpoint method data # pre"
      "filter is_api_request pre = []" "length (filter is_token_post pre) = 1"
    by auto
  have sent': "sent (snd (make_request E endpoint method data s))
      = sent s0 @ (api_call E (client s0) base endpoint method data # pre
                    @ [api_call E (client s2) base endpoint method data])"
    using make_request_retry_sent [OF ready base first expired ok] pre(1) by simp
  show "filter is_api_request (new_calls s0 (snd (make_request E endpoint method data s)))
          = [api_call E (client s0) base endpoint method data,
             api_call E (client s2) base endpoint method data]"
    unfolding new_calls_append [OF sent'] using pre(2) by simp
  show "length (filter is_token_post (new_calls s0 (snd (make_request E endpoint method data s)))) = 1"
    unfolding new_calls_append [OF sent'] using pre(3) by simp
  show "timeout (client s2) = timeout (client s0)"
    using relatesD [OF authenticate_keeps_timeout ok] by (simp add: keeps_def)
  note run = make_request_reauth_succeeds [OF ready base first expired ok]
  { assume "http E (world s2) (api_call E (client s2) base endpoint method data) = (Inl t, w3)"
    then show "fst (make_request E endpoint method data s) = Inl (RequestException (Transport t))"
      unfolding run by simp }
  { assume h: "http E (world s2) (api_call E (client s2) base endpoint method data) = (Inr resp2, w3)"
    { assume "400 \<le> status_code resp2 \<and> status_code resp2 < 600"
      with h show "fst (make_request E endpoint method data s)
                    = Inl (RequestException (HTTPError resp2))"
        unfolding run by simp }
    { assume "\<not> (400 \<le> status_code resp2 \<and> status_code resp2 < 600) \<and> content resp2 = []"
      with h show "fst (make_request E endpoint method data s) = Inr (PDict [])"
        unfolding run by simp }
    { assume "\<not> (400 \<le> status_code resp2 \<and> status_code resp2 < 600) \<and> content resp2 \<noteq> []"
      with h show "fst (make_request E endpoint method data s) = response_json E resp2"
        unfolding run by (simp add: response_json_def split: option.splits) } }
qed


theorem make_request_token_expired_witness:
  "fst (make_request demo_env ''/ed-fi/students'' ''POST'' (Some (create_student_payload bare))
         (session [Inr unauthorized, Inr (ok_response token_doc2), Inr (ok_response created_doc)]))
     = Inr (PDict [(''id'', PStr ''604835'')])
   \<and> map call_headers (filter is_api_request
        (sent (snd (make_request demo_env ''/ed-fi/students'' ''POST''
                      (Some (create_student_payload bare))
                      (session [Inr unauthorized, Inr (ok_response token_doc2),
                                Inr (ok_response created_doc)])))))
     = [[(''Authorization'', ''Bearer t1''), (''Content-Type'', ''application/json'')],
        [(''Authorization'', ''Bearer t2''), (''Content-Type'', ''application/json'')]]
   \<and> fst (make_request demo_env ''/ed-fi/students'' ''POST'' (Some (create_student_payload bare))
         (session [Inr unauthorized, Inr (ok_response token_doc2), Inr unauthorized]))
     = Inl (RequestException (HTTPError unauthorized))
   \<and> length (filter is_api_request
        (sent (snd (make_request demo_env ''/ed-fi/students'' ''POST''
                      (Some (create_student_payload bare))
                      (session [Inr unauthorized, Inr (ok_response token_doc2),
                                Inr unauthorized]))))) = 2
   \<and> fst (make_request demo_env ''/ed-fi/students'' ''POST'' (Some (create_student_payload bare))
         (session [Inr unauthorized, Inr unauthorized]))
     = Inl (AuthFailed (HTTPError unauthorized))"
proof -
  let ?d = "Some (create_student_payload bare)"
  let ?b = "''https://api.test/data/v3''"
  let ?c1 = "api_call demo_env (client (session [])) ?b ''/ed-fi/students'' ''POST'' ?d"
  let ?post = "RequestsPost (PStr ''https://api.test/oauth/token'')
      [(''grant_type'', ''client_credentials''), (''client_id'', ''test''),
       (''client_secret'', ''secret'')]
      [(''Content-Type'', ''application/x-www-form-urlencoded'')] 30"
  let ?s1 = "\<lambda>w. (session w)\<lparr>world := tl w,
      sent := sent (session w) @ [api_call demo_env (client (session w)) ?b ''/ed-fi/students'' ''POST'' ?d],
      logged := logged (session w) @ [LogTokenExpired]\<rparr>"
  let ?s2 = "\<lambda>w. \<lparr>client = (client (session []))\<lparr>access_token := PStr ''t2''\<rparr>,
      world = w, sent = [?c1, ?post],
      logged = [LogTokenExpired, LogAuthenticating, LogAuthenticated]\<rparr>"
  let ?s2' = "\<lparr>client = client (session []), world = [], sent = [?c1, ?post],
      logged = [LogTokenExpired, LogAuthenticating]\<rparr>"
  let ?ok = "[Inr unauthorized, Inr (ok_response token_doc2), Inr (ok_response created_doc)]"
  let ?again = "[Inr unauthorized, Inr (ok_response token_doc2), Inr unauthorized]"
  let ?refused = "[Inr unauthorized, Inr unauthorized]"
  have ready: "\<And>w. truthy (access_token (client (session w))) \<and> session w = session w
      \<or> \<not> truthy (access_token (client (session w)))
        \<and> authenticate demo_env (session w) = (Inr (), session w)"
    by (simp add: input_defs)
  have base: "\<And>w. data_management_api_url (client (session w)) = PStr ?b"
    by (simp add: input_defs)
  have first: "\<And>w. http demo_env (world (session (Inr unauthorized # w)))
        (api_call demo_env (client (session (Inr unauthorized # w))) ?b ''/ed-fi/students'' ''POST'' ?d)
      = (Inr unauthorized, tl (Inr unauthorized # w))"
    by (simp add: input_defs)
  have expired: "status_code unauthorized = 401" by (simp add: unauthorized_def)
  have a1: "authenticate demo_env (?s1 ?ok) = (Inr (), ?s2 [Inr (ok_response created_doc)])"
    by (simp add: auth_defs input_defs)
  have a2: "authenticate demo_env (?s1 ?again) = (Inr (), ?s2 [Inr unauthorized])"
    by (simp add: auth_defs input_defs)
  have a3: "authenticate demo_env (?s1 ?refused) = (Inl (AuthFailed (HTTPError unauthorized)), ?s2')"
    by (simp add: auth_defs input_defs)
  note t1 = make_request_token_expired [OF ready base first expired a1,
      of "[]" "[]" "ok_response created_doc"]
  note t2 = make_request_token_expired [OF ready base first expired a2, of "[]" "[]" unauthorized]
  note t3 = make_request_token_expired [OF ready base first expired a3, of "[]" "[]" unauthorized]
  have r1: "fst (make_request demo_env ''/ed-fi/students'' ''POST'' ?d (session ?ok))
      = Inr (PDict [(''id'', PStr ''604835'')])"
    using t1 by (simp add: demo_env_def scripted_http_def ok_response_def created_doc_def
          response_json_def demo_json_def)
  have c1: "map call_headers (filter is_api_request
        (sent (snd (make_request demo_env ''/ed-fi/students'' ''POST'' ?d (session ?ok)))))
     = [[(''Authorization'', ''Bearer t1''), (''Content-Type'', ''application/json'')],
        [(''Authorization'', ''Bearer t2''), (''Content-Type'', ''application/json'')]]"
    using t1 by (simp add: new_calls_def session_def api_call_def format_value_def)
  have r2: "fst (make_request demo_env ''/ed-fi/students'' ''POST'' ?d (session ?again))
      = Inl (RequestException (HTTPError unauthorized))"
    using t2 by (simp add: demo_env_def scripted_http_def unauthorized_def)
  have c2: "length (filter is_api_request
        (sent (snd (make_request demo_env ''/ed-fi/students'' ''POST'' ?d (session ?again))))) = 2"
    using t2 by (simp add: new_calls_def session_def)
  have r3: "fst (make_request demo_env ''/ed-fi/students'' ''POST'' ?d (session ?refused))
      = Inl (AuthFailed (HTTPError unauthorized))"
    using t3 by simp
  from r1 c1 r2 c2 r3 show ?thesis by simp
qed

text \<open>
  Claim C1 as stated fails: when the 401 is followed by a token request that is refused,
  \<open>make_request\<close> raises the authentication failure and the request is never retried.
\<close>

theorem make_request_no_retry_counterexample:
  "fst (make_request demo_env ''/ed-fi/students'' ''POST'' (Some (create_student_payload bare))
         (session [Inr unauthorized, Inr unauthorized]))
     = Inl (AuthFailed (HTTPError unauthorized))
   \<and> length (filter is_api_request
        (sent (snd (make_request demo_env ''/ed-fi/students'' ''POST''
                      (Some (create_student_payload bare))
                      (session [Inr unauthorized, Inr unauthorized]))))) = 1"
  by (simp add: run_defs input_defs)

lemma make_request_not_expired_sent:
  assumes ready: "truthy (access_token (client s)) \<and> s0 = s
             \<or> \<not> truthy (access_token (client s)) \<and> authenticate E s = (Inr (), s0)"
    and base: "data_management_api_url (client s0) = PStr base"
    and first: "http E (world s0) (api_call E (client s0) base endpoint method data) = (out, w1)"
    and other: "\<And>resp. out = Inr resp \<Longrightarrow> status_code resp \<noteq> 401"
  shows "sent (snd (make_request E endpoint method data s))
           = sent s0 @ [api_call E (client s0) base endpoint method data]"
  using ready
proof
  assume "truthy (access_token (client s)) \<and> s0 = s"
  with base first other show ?thesis
    by (cases out) (simp_all add: request_defs split: request_exception.splits option.splits)
next
  assume "\<not> truthy (access_token (client s)) \<and> authenticate E s = (Inr (), s0)"
  with base first other show ?thesis
    by (cases out) (simp_all add: request_defs split: request_exception.splits option.splits)
qed

text \<open>
  Claim C8, as amended. The requests that \<open>make_request\<close> sends, from the state \<open>s0\<close>
  reached once a token is held, are the call built from the client as it is then and,
  after a 401 and a successful re-authentication, the call built from the client as it is
  after that. Each such call carries \<open>Authorization: Bearer\<close> with the token the client
  holds when the call is built and \<open>Content-Type: application/json\<close>, also when the
  body argument is absent.
\<close>

theorem make_request_headers:
  assumes ready: "truthy (access_token (client s)) \<and> s0 = s
             \<or> \<not> truthy (access_token (client s)) \<and> authenticate E s = (Inr (), s0)"
    and base: "data_management_api_url (client s0) = PStr base"
    and first: "http E (world s0) (api_call E (client s0) base endpoint method data) = (out, w1)"
    and reauth: "authenticate E
                   (s0\<lparr>world := w1,
                       sent := sent s0 @ [api_call E (client s0) base endpoint method data],
                       logged := logged s0 @ [LogTokenExpired]\<rparr>) = (r, s2)"
  shows
   "filter is_api_request (new_calls s0 (snd (make_request E endpoint method data s)))
      = (if (\<exists>resp. out = Inr resp \<and> status_code resp = 401) \<and> r = Inr ()
         then [api_call E (client s0) base endpoint method data,
               api_call E (client s2) base endpoint method data]
         else [api_call E (client s0) base endpoint method data])
    \<and> call_headers (api_call E c base endpoint method data)
        = [(''Authorization'', ''Bearer '' @ format_value E (access_token c)),
           (''Content-Type'', ''application/json'')]
    \<and> call_headers (api_call E c base endpoint method None)
        = [(''Authorization'', ''Bearer '' @ format_value E (access_token c)),
           (''Content-Type'', ''application/json'')]
    \<and> call_json (api_call E c base endpoint method None) = None"
proof -
  let ?c1 = "api_call E (client s0) base endpoint method data"
  let ?run = "snd (make_request E endpoint method data s)"
  have calls: "filter is_api_request (new_calls s0 ?run)
      = (if (\<exists>resp. out = Inr resp \<and> status_code resp = 401) \<and> r = Inr ()
         then [?c1, api_call E (client s2) base endpoint method data] else [?c1])"
  proof (cases "\<exists>resp. out = Inr resp \<and> status_code resp = 401")
    case False
    then have "\<And>resp. out = Inr resp \<Longrightarrow> status_code resp \<noteq> 401" by blast
    from make_request_not_expired_sent [OF ready base first this] False
    show ?thesis by simp
  next
    case True
    then obtain resp where out: "out = Inr resp" and expired: "status_code resp = 401" by blast
    note first' = first [unfolded out]
    from calls_after_reauth [OF reauth] obtain pre where
      pre: "sent s2 = sent s0 @ ?c1 # pre" "filter is_api_request pre = []"
      by auto
    show ?thesis
    proof (cases r)
      case (Inl e)
      from make_request_reauth_fails [OF ready base first' expired reauth [unfolded Inl]]
      have "?run = s2" by simp
      with pre True Inl show ?thesis by simp
    next
      case (Inr u)
      then have r: "r = Inr ()" by simp
      from make_request_retry_sent [OF ready base first' expired reauth [unfolded r]] pre(1)
      have "sent ?run = sent s0 @ (?c1 # pre @ [api_call E (client s2) base endpoint method data])"
        by simp
      from new_calls_append [OF this] pre(2) True r show ?thesis by simp
    qed
  qed
  show ?thesis
    unfolding calls by (simp add: api_call_def json_arg_def)
qed

theorem make_request_headers_witness:
  "filter is_api_request
     (sent (snd (make_request demo_env ''/ed-fi/students'' ''GET'' None
                   (session [Inr (ok_response created_doc)]))))
   = [RequestsRequest ''GET'' ''https://api.test/data/v3/ed-fi/students''
        [(''Authorization'', ''Bearer t1''), (''Content-Type'', ''application/json'')] None 30]"
proof -
  let ?s = "session [Inr (ok_response created_doc)]"
  let ?b = "''https://api.test/data/v3''"
  have ready: "truthy (access_token (client ?s)) \<and> ?s = ?s
      \<or> \<not> truthy (access_token (client ?s)) \<and> authenticate demo_env ?s = (Inr (), ?s)"
    by (simp add: input_defs)
  have base: "data_management_api_url (client ?s) = PStr ?b"
    by (simp add: input_defs)
  have first: "http demo_env (world ?s) (api_call demo_env (client ?s) ?b ''/ed-fi/students'' ''GET'' None)
      = (Inr (ok_response created_doc), [])"
    by (simp add: input_defs)
  obtain r s2 where reauth: "authenticate demo_env
       (?s\<lparr>world := [],
           sent := sent ?s @ [api_call demo_env (client ?s) ?b ''/ed-fi/students'' ''GET'' None],
           logged := logged ?s @ [LogTokenExpired]\<rparr>) = (r, s2)"
    by (cases "authenticate demo_env
       (?s\<lparr>world := [],
           sent := sent ?s @ [api_call demo_env (client ?s) ?b ''/ed-fi/students'' ''GET'' None],
           logged := logged ?s @ [LogTokenExpired]\<rparr>)")
  from make_request_headers [OF ready base first reauth]
  show ?thesis
    by (simp add: new_calls_def session_def api_call_def format_value_def json_arg_def
          ok_response_def demo_client_def EdFiApiClient_init_def demo_env_def lstrip_def)
qed

text \<open>
  Claim C8 as stated fails: a request without a body is sent with
  \<open>Content-Type: application/json\<close> all the same.
\<close>

theorem make_request_content_type_counterexample:
  "map (\<lambda>q. (call_json q, call_headers q))
     (sent (snd (make_request demo_env ''/ed-fi/students'' ''GET'' None
                   (session [Inr (ok_response created_doc)]))))
   = [(None, [(''Authorization'', ''Bearer t1''), (''Content-Type'', ''application/json'')])]"
  by (simp add: run_defs input_defs)

section \<open>Loading students\<close>

lemma relates_mono: "relates R m \<Longrightarrow> (\<And>s s'. R s s' \<Longrightarrow> R' s s') \<Longrightarrow> relates R' m"
  by (auto simp: relates_def)

lemma log_request_failure_sends: "relates (sends_only P) (log_request_failure e)"
  unfolding log_request_failure_def
  by (cases e) (auto intro!: relates_intros)

lemma log_request_failure_logs: "relates (logs_only (\<lambda>l. \<not> is_loading l)) (log_request_failure e)"
  unfolding log_request_failure_def
  by (cases e) (auto intro!: relates_intros)

lemma authenticate_sends: "relates (sends_only (\<lambda>q. \<not> is_api_request q)) (authenticate E)"
  unfolding relates_def sends_only_def
  using authenticate_calls by blast

lemma authenticate_sends_any:
  "relates (sends_only (\<lambda>q. is_api_request q \<longrightarrow> Q q)) (authenticate E)"
  by (rule relates_mono [OF authenticate_sends]) (auto simp: sends_only_def)

lemma make_request_sends:
  "relates (sends_only (\<lambda>q. is_api_request q \<longrightarrow> call_json q = json_arg data))
     (make_request E endpoint method data)"
  unfolding make_request_def Let_def
  by (intro relates_intros log_request_failure_sends authenticate_sends_any) simp_all

lemma discover_endpoints_logs:
  "relates (logs_only (\<lambda>l. \<not> is_loading l)) (discover_endpoints E)"
  unfolding discover_endpoints_def
  by (intro relates_intros) simp_all

lemma authenticate_logs:
  "relates (logs_only (\<lambda>l. \<not> is_loading l)) (authenticate E)"
  unfolding authenticate_def Let_def
  by (intro relates_intros discover_endpoints_logs) simp_all

lemma make_request_logs:
  "relates (logs_only (\<lambda>l. \<not> is_loading l)) (make_request E endpoint method data)"
  unfolding make_request_def Let_def
  by (intro relates_intros log_request_failure_logs authenticate_logs) simp_all

lemma map_of_payload_studentUniqueId:
  "map_of (create_student_payload st) ''studentUniqueId'' = Some (PStr (unique_id st))"
  by (simp add: create_student_payload_def map_of_add_optional split: option.splits)

lemma map_of_payload_studentReference:
  "map_of (create_student_payload st) ''studentReference'' = None"
  by (simp add: create_student_payload_def map_of_add_optional split: option.splits)

lemma create_student_payload_nonempty: "create_student_payload st \<noteq> []"
  using map_of_payload_studentUniqueId [of st] by auto

lemma association_payload_differs:
  assumes "create_student_school_association_payload E c st = Inr a"
  shows "a \<noteq> create_student_payload st'"
proof
  assume "a = create_student_payload st'"
  then have "map_of a ''studentReference'' = None"
    by (simp add: map_of_payload_studentReference)
  with assms show False
    by (auto simp: create_student_school_association_payload_def split: option.splits)
qed

lemma association_payload_nonempty:
  "create_student_school_association_payload E c st = Inr a \<Longrightarrow> a \<noteq> []"
  by (auto simp: create_student_school_association_payload_def split: option.splits)

lemma load_student_primary_fails:
  assumes "primary_create E st s = (Inl e, s2)"
  shows "load_student E st s = (Inl e, s2\<lparr>logged := logged s2 @ [LogLoadFailed (unique_id st) e]\<rparr>)"
  using assms
  by (simp add: load_student_def primary_create_def loading_entry_def prog_defs)

lemma load_student_primary_succeeds:
  assumes "primary_create E st s = (Inr v, s2)"
  shows "load_student E st s =
    (case create_student_school_association_payload E (client s2) st of
       Inl e \<Rightarrow>
         (Inl e, s2\<lparr>logged := logged s2 @ [LogStudentCreated (unique_id st),
                                            LogLoadFailed (unique_id st) e]\<rparr>)
     | Inr a \<Rightarrow>
         (case make_request E ''/ed-fi/studentSchoolAssociations'' ''POST'' (Some a)
                 (s2\<lparr>logged := logged s2 @ [LogStudentCreated (unique_id st)]\<rparr>) of
            (Inl e, s4) \<Rightarrow>
              (Inl e, s4\<lparr>logged := logged s4 @ [LogLoadFailed (unique_id st) e]\<rparr>)
          | (Inr v', s4) \<Rightarrow>
              (Inr (), s4\<lparr>logged := logged s4 @ [LogAssociationCreated (unique_id st)]\<rparr>)))"
  using assms
  by (simp add: load_student_def primary_create_def loading_entry_def prog_defs
        split: sum.splits prod.splits)

lemma primary_create_sends:
  assumes "primary_create E st s = (r, s2)"
  shows "\<exists>pre. sent s2 = sent s @ pre
           \<and> (\<forall>q \<in> set pre. is_api_request q \<longrightarrow> call_json q = Some (create_student_payload st))
           \<and> (\<forall>q \<in> set pre. call_json q = None \<or> call_json q = Some (create_student_payload st))"
proof -
  from assms have run: "make_request E ''/ed-fi/students'' ''POST'' (Some (create_student_payload st))
      (s\<lparr>logged := logged s @ [loading_entry st]\<rparr>) = (r, s2)"
    by (simp add: primary_create_def prog_defs)
  from relatesD [OF make_request_sends run] obtain pre where
    pre: "sent s2 = sent s @ pre"
      "\<forall>q \<in> set pre. is_api_request q \<longrightarrow> call_json q = Some (create_student_payload st)"
    by (auto simp: sends_only_def json_arg_def create_student_payload_nonempty)
  have "\<forall>q \<in> set pre. call_json q = None \<or> call_json q = Some (create_student_payload st)"
  proof
    fix q assume "q \<in> set pre"
    with pre(2) show "call_json q = None \<or> call_json q = Some (create_student_payload st)"
      by (cases q) auto
  qed
  with pre show ?thesis by blast
qed

lemma association_sends:
  assumes p: "primary_create E st s = (Inr v, s2)"
  shows "\<exists>post. sent (snd (load_student E st s)) = sent s2 @ post
           \<and> (\<forall>q \<in> set post. is_api_request q \<longrightarrow>
                 (\<exists>a. create_student_school_association_payload E (client s2) st = Inr a
                      \<and> call_json q = Some a))"
proof (cases "create_student_school_association_payload E (client s2) st")
  case (Inl e)
  then have "sent (snd (load_student E st s)) = sent s2 @ []"
    by (simp add: load_student_primary_succeeds [OF p])
  then show ?thesis by (metis empty_iff list.set(1))
next
  case (Inr a)
  obtain r4 s4 where run: "make_request E ''/ed-fi/studentSchoolAssociations'' ''POST'' (Some a)
      (s2\<lparr>logged := logged s2 @ [LogStudentCreated (unique_id st)]\<rparr>) = (r4, s4)"
    by (cases "make_request E ''/ed-fi/studentSchoolAssociations'' ''POST'' (Some a)
      (s2\<lparr>logged := logged s2 @ [LogStudentCreated (unique_id st)]\<rparr>)")
  from relatesD [OF make_request_sends run] obtain post where
    post: "sent s4 = sent s2 @ post"
      "\<forall>q \<in> set post. is_api_request q \<longrightarrow> call_json q = Some a"
    by (auto simp: sends_only_def json_arg_def association_payload_nonempty [OF Inr])
  have "sent (snd (load_student E st s)) = sent s4"
    by (cases r4) (simp_all add: load_student_primary_succeeds [OF p] Inr run)
  with post Inr show ?thesis by auto
qed

lemma load_loop_Cons:
  "load_loop E (st # sts) (a, b) s =
     (case load_student E st s of
        (Inl e, s') \<Rightarrow> load_loop E sts (a, b + 1) (s'\<lparr>logged := logged s' @ [LogContinuing]\<rparr>)
      | (Inr u, s') \<Rightarrow> load_loop E sts (a + 1, b) s')"
  by (simp add: prog_defs split: prod.splits sum.splits)

lemma load_loop_single:
  "snd (load_loop E [st] (a, b) s) =
     (case load_student E st s of
        (Inl e, s') \<Rightarrow> s'\<lparr>logged := logged s' @ [LogContinuing]\<rparr>
      | (Inr u, s') \<Rightarrow> s')"
  by (simp add: prog_defs split: prod.splits sum.splits)

lemma load_loop_counts:
  "fst (load_loop E students (a, b) s) =
     Inr (a + length (filter (\<lambda>r. \<not> isl r) (load_results E students s)),
          b + length (filter isl (load_results E students s)))"
proof (induction students arbitrary: a b s)
  case Nil
  show ?case by (simp add: load_results_def ret_def)
next
  case (Cons st sts)
  obtain r s' where run: "load_student E st s = (r, s')" by (cases "load_student E st s")
  show ?case
  proof (cases r)
    case (Inl e)
    with run Cons.IH [of a "b + 1" "s'\<lparr>logged := logged s' @ [LogContinuing]\<rparr>"]
    show ?thesis
      by (simp add: load_loop_Cons load_results_def ret_def del: load_loop.simps(2))
  next
    case (Inr u)
    with run Cons.IH [of "a + 1" b s']
    show ?thesis
      by (simp add: load_loop_Cons load_results_def ret_def del: load_loop.simps(2))
  qed
qed

lemma length_load_results [simp]: "length (load_results E students s) = length students"
proof -
  have "length (run_states E students s) = length students"
    by (induction students arbitrary: s) simp_all
  then show ?thesis by (simp add: load_results_def)
qed

lemma load_results_nth:
  "i < length students \<Longrightarrow>
     load_results E students s ! i
       = fst (load_student E (students ! i) (run_states E students s ! i))"
proof -
  assume i: "i < length students"
  have "length (run_states E students s) = length students"
    by (induction students arbitrary: s) simp_all
  with i show ?thesis by (simp add: load_results_def)
qed

lemma one_failure_counts:
  assumes k: "k < length rs"
    and ok: "\<forall>i < length rs. i \<noteq> k \<longrightarrow> \<not> isl (rs ! i)"
    and bad: "isl (rs ! k)"
  shows "length (filter (\<lambda>r. \<not> isl r) rs) = length rs - 1 \<and> length (filter isl rs) = 1"
proof -
  have split: "rs = take k rs @ rs ! k # drop (Suc k) rs"
    using k by (simp add: id_take_nth_drop)
  have left: "\<forall>r \<in> set (take k rs). \<not> isl r"
  proof
    fix r assume "r \<in> set (take k rs)"
    then obtain i where "i < k" "rs ! i = r" using k
      by (auto simp: in_set_conv_nth)
    with ok k show "\<not> isl r" by auto
  qed
  have right: "\<forall>r \<in> set (drop (Suc k) rs). \<not> isl r"
  proof
    fix r assume "r \<in> set (drop (Suc k) rs)"
    then obtain j where j: "j < length rs - Suc k" "rs ! (Suc k + j) = r"
      by (auto simp: in_set_conv_nth)
    with ok have "\<not> isl (rs ! (Suc k + j))" by auto
    with j show "\<not> isl r" by simp
  qed
  have fl: "filter isl (take k rs) = []" "filter (\<lambda>r. \<not> isl r) (take k rs) = take k rs"
    using left by (simp_all add: filter_empty_conv)
  have fr: "filter isl (drop (Suc k) rs) = []"
    "filter (\<lambda>r. \<not> isl r) (drop (Suc k) rs) = drop (Suc k) rs"
    using right by (simp_all add: filter_empty_conv)
  have "filter isl rs = [rs ! k]"
    by (subst split) (simp add: fl fr bad)
  moreover have "filter (\<lambda>r. \<not> isl r) rs = take k rs @ drop (Suc k) rs"
    by (subst split) (simp add: fl fr bad)
  ultimately show ?thesis using k by simp
qed

lemmas loader_defs = load_student_def create_student_school_association_payload_def run_defs

lemmas loader_input_defs = input_defs server_error_def created_def

lemma make_request_first_call:
  assumes ready: "truthy (access_token (client s)) \<and> s0 = s
             \<or> \<not> truthy (access_token (client s)) \<and> authenticate E s = (Inr (), s0)"
    and base: "data_management_api_url (client s0) = PStr base"
  shows "\<exists>rest. sent (snd (make_request E endpoint method data s))
           = sent s0 @ api_call E (client s0) base endpoint method data # rest"
proof -
  let ?c1 = "api_call E (client s0) base endpoint method data"
  let ?run = "snd (make_request E endpoint method data s)"
  obtain out w1 where first: "http E (world s0) ?c1 = (out, w1)"
    by (cases "http E (world s0) ?c1")
  show ?thesis
  proof (cases "\<exists>resp. out = Inr resp \<and> status_code resp = 401")
    case False
    then have "\<And>resp. out = Inr resp \<Longrightarrow> status_code resp \<noteq> 401" by blast
    from make_request_not_expired_sent [OF ready base first this]
    show ?thesis by simp
  next
    case True
    then obtain resp where out: "out = Inr resp" and expired: "status_code resp = 401" by blast
    note first' = first [unfolded out]
    obtain r s2 where reauth: "authenticate E
        (s0\<lparr>world := w1, sent := sent s0 @ [?c1], logged := logged s0 @ [LogTokenExpired]\<rparr>)
        = (r, s2)"
      by (cases "authenticate E
        (s0\<lparr>world := w1, sent := sent s0 @ [?c1], logged := logged s0 @ [LogTokenExpired]\<rparr>)")
    from calls_after_reauth [OF reauth] obtain pre where
      pre: "sent s2 = sent s0 @ ?c1 # pre"
      by auto
    show ?thesis
    proof (cases r)
      case (Inl e)
      from make_request_reauth_fails [OF ready base first' expired reauth [unfolded Inl]]
      have "?run = s2" by simp
      with pre show ?thesis by simp
    next
      case (Inr u)
      then have r: "r = Inr ()" by simp
      from make_request_retry_sent [OF ready base first' expired reauth [unfolded r]] pre
      have "sent ?run = sent s0 @ ?c1 # (pre @ [api_call E (client s2) base endpoint method data])"
        by simp
      then show ?thesis by blast
    qed
  qed
qed

lemma primary_create_snd:
  "snd (primary_create E st s)
     = snd (make_request E ''/ed-fi/students'' ''POST'' (Some (create_student_payload st))
              (s\<lparr>logged := logged s @ [loading_entry st]\<rparr>))"
  by (simp add: primary_create_def next_do_def bind_def logger_def)

lemma load_student_association_run:
  assumes p: "primary_create E st s = (Inr v, s')"
    and a: "create_student_school_association_payload E (client s') st = Inr a"
  shows "sent (snd (load_student E st s))
      = sent (snd (make_request E ''/ed-fi/studentSchoolAssociations'' ''POST'' (Some a)
                     (s'\<lparr>logged := logged s' @ [LogStudentCreated (unique_id st)]\<rparr>)))"
    and "fst (load_student E st s)
      = (case fst (make_request E ''/ed-fi/studentSchoolAssociations'' ''POST'' (Some a)
                     (s'\<lparr>logged := logged s' @ [LogStudentCreated (unique_id st)]\<rparr>)) of
           Inl e \<Rightarrow> Inl e | Inr x \<Rightarrow> Inr ())"
  by (simp_all add: load_student_primary_succeeds [OF p] a split: prod.splits sum.splits)

lemma json_arg_Some: "d \<noteq> [] \<Longrightarrow> call_json (api_call E c base endpoint method (Some d)) = Some d"
  by (simp add: api_call_def json_arg_def)

text \<open>
  Claim C3. \<open>load_student\<close> posts the student first: once a token is held and the data
  URL is a string, the first API call it makes is the POST of the student payload. When
  that first request fails, the failure is the result of \<open>load_student\<close>, nothing more is
  sent, and no call made for the record carries its association payload. When it succeeds,
  the calls made up to then carry the student payload only, and the association payload is
  then submitted: the next API call is the POST of the association payload, every later
  call carries that payload too, and \<open>load_student\<close> succeeds exactly when that request
  does. In the loop, when the record at position \<open>k\<close> fails at the first request and every
  other record loads, the counters end at \<open>N - 1\<close> successes and one error.
\<close>

theorem load_student_primary_first:
  "(primary_create E st s = (Inl e, s') \<longrightarrow>
       fst (load_student E st s) = Inl e
     \<and> sent (snd (load_student E st s)) = sent s'
     \<and> (create_student_school_association_payload E c st = Inr a \<longrightarrow>
          Some a \<notin> set (map call_json (new_calls s (snd (load_student E st s))))))
 \<and> (primary_create E st s = (Inr v, s') \<longrightarrow>
       (\<forall>q \<in> set (new_calls s s').
          is_api_request q \<longrightarrow> call_json q = Some (create_student_payload st))
     \<and> (\<exists>post. new_calls s (snd (load_student E st s)) = new_calls s s' @ post
          \<and> (\<forall>q \<in> set post. is_api_request q \<longrightarrow>
                (\<exists>a. create_student_school_association_payload E (client s') st = Inr a
                     \<and> call_json q = Some a))))
 \<and> ((truthy (access_token (client s))
         \<and> sp = s\<lparr>logged := logged s @ [loading_entry st]\<rparr>
       \<or> \<not> truthy (access_token (client s))
         \<and> authenticate E (s\<lparr>logged := logged s @ [loading_entry st]\<rparr>) = (Inr (), sp))
      \<and> data_management_api_url (client sp) = PStr base
    \<longrightarrow> (\<exists>rest. new_calls sp (snd (primary_create E st s))
                 = api_call E (client sp) base ''/ed-fi/students'' ''POST''
                     (Some (create_student_payload st)) # rest)
        \<and> call_json (api_call E (client sp) base ''/ed-fi/students'' ''POST''
                        (Some (create_student_payload st)))
            = Some (create_student_payload st))
 \<and> (primary_create E st s = (Inr v, s')
      \<and> create_student_school_association_payload E (client s') st = Inr a
      \<and> (truthy (access_token (client s'))
           \<and> sa = s'\<lparr>logged := logged s' @ [LogStudentCreated (unique_id st)]\<rparr>
         \<or> \<not> truthy (access_token (client s'))
           \<and> authenticate E (s'\<lparr>logged := logged s' @ [LogStudentCreated (unique_id st)]\<rparr>)
               = (Inr (), sa))
      \<and> data_management_api_url (client sa) = PStr base'
    \<longrightarrow> (\<exists>rest. new_calls sa (snd (load_student E st s))
                 = api_call E (client sa) base' ''/ed-fi/studentSchoolAssociations'' ''POST''
                     (Some a) # rest)
        \<and> call_json (api_call E (client sa) base' ''/ed-fi/studentSchoolAssociations'' ''POST''
                        (Some a)) = Some a
        \<and> fst (load_student E st s)
            = (case fst (make_request E ''/ed-fi/studentSchoolAssociations'' ''POST'' (Some a)
                           (s'\<lparr>logged := logged s' @ [LogStudentCreated (unique_id st)]\<rparr>)) of
                 Inl x \<Rightarrow> Inl x | Inr x \<Rightarrow> Inr ()))
 \<and> (k < length students
      \<and> (\<forall>i < length students. i \<noteq> k \<longrightarrow> load_results E students sb ! i = Inr ())
      \<and> fst (primary_create E (students ! k) (run_states E students sb ! k)) = Inl e'
    \<longrightarrow> fst (load_loop E students (0, 0) sb) = Inr (length students - 1, 1))"
proof (intro conjI impI)
  assume p: "primary_create E st s = (Inl e, s')"
  from load_student_primary_fails [OF p]
  show "fst (load_student E st s) = Inl e" and same: "sent (snd (load_student E st s)) = sent s'"
    by simp_all
  assume a: "create_student_school_association_payload E c st = Inr a"
  from primary_create_sends [OF p] obtain pre where
    pre: "sent s' = sent s @ pre"
      "\<forall>q \<in> set pre. call_json q = None \<or> call_json q = Some (create_student_payload st)"
    by blast
  from pre(1) same have "new_calls s (snd (load_student E st s)) = pre"
    by (simp add: new_calls_def)
  with pre(2) association_payload_differs [OF a, of st]
  show "Some a \<notin> set (map call_json (new_calls s (snd (load_student E st s))))"
    by auto
next
  assume p: "primary_create E st s = (Inr v, s')"
  from primary_create_sends [OF p] obtain pre where
    pre: "sent s' = sent s @ pre"
      "\<forall>q \<in> set pre. is_api_request q \<longrightarrow> call_json q = Some (create_student_payload st)"
    by blast
  from pre show "\<forall>q \<in> set (new_calls s s').
      is_api_request q \<longrightarrow> call_json q = Some (create_student_payload st)"
    by (simp add: new_calls_def)
  from association_sends [OF p] obtain post where
    post: "sent (snd (load_student E st s)) = sent s' @ post"
      "\<forall>q \<in> set post. is_api_request q \<longrightarrow>
         (\<exists>a. create_student_school_association_payload E (client s') st = Inr a
              \<and> call_json q = Some a)"
    by blast
  from pre(1) post(1) have "new_calls s (snd (load_student E st s)) = new_calls s s' @ post"
    by (simp add: new_calls_def)
  with post(2) show "\<exists>post. new_calls s (snd (load_student E st s)) = new_calls s s' @ post
      \<and> (\<forall>q \<in> set post. is_api_request q \<longrightarrow>
            (\<exists>a. create_student_school_association_payload E (client s') st = Inr a
                 \<and> call_json q = Some a))"
    by blast
next
  assume h: "(truthy (access_token (client s))
         \<and> sp = s\<lparr>logged := logged s @ [loading_entry st]\<rparr>
       \<or> \<not> truthy (access_token (client s))
         \<and> authenticate E (s\<lparr>logged := logged s @ [loading_entry st]\<rparr>) = (Inr (), sp))
      \<and> data_management_api_url (client sp) = PStr base"
  let ?sl = "s\<lparr>logged := logged s @ [loading_entry st]\<rparr>"
  from h have ready: "truthy (access_token (client ?sl)) \<and> sp = ?sl
      \<or> \<not> truthy (access_token (client ?sl)) \<and> authenticate E ?sl = (Inr (), sp)"
    by simp
  from h have base: "data_management_api_url (client sp) = PStr base" by simp
  from make_request_first_call [OF ready base] obtain rest where
    "sent (snd (primary_create E st s))
       = sent sp @ api_call E (client sp) base ''/ed-fi/students'' ''POST''
                     (Some (create_student_payload st)) # rest"
    unfolding primary_create_snd by blast
  from new_calls_append [OF this]
  show "\<exists>rest. new_calls sp (snd (primary_create E st s))
                 = api_call E (client sp) base ''/ed-fi/students'' ''POST''
                     (Some (create_student_payload st)) # rest"
    by blast
  show "call_json (api_call E (client sp) base ''/ed-fi/students'' ''POST''
                        (Some (create_student_payload st)))
            = Some (create_student_payload st)"
    by (rule json_arg_Some [OF create_student_payload_nonempty])
next
  assume h: "primary_create E st s = (Inr v, s')
      \<and> create_student_school_association_payload E (client s') st = Inr a
      \<and> (truthy (access_token (client s'))
           \<and> sa = s'\<lparr>logged := logged s' @ [LogStudentCreated (unique_id st)]\<rparr>
         \<or> \<not> truthy (access_token (client s'))
           \<and> authenticate E (s'\<lparr>logged := logged s' @ [LogStudentCreated (unique_id st)]\<rparr>)
               = (Inr (), sa))
      \<and> data_management_api_url (client sa) = PStr base'"
  let ?sc = "s'\<lparr>logged := logged s' @ [LogStudentCreated (unique_id st)]\<rparr>"
  from h have p: "primary_create E st s = (Inr v, s')"
    and a: "create_student_school_association_payload E (client s') st = Inr a"
    and base: "data_management_api_url (client sa) = PStr base'"
    by simp_all
  from h have ready: "truthy (access_token (client ?sc)) \<and> sa = ?sc
      \<or> \<not> truthy (access_token (client ?sc)) \<and> authenticate E ?sc = (Inr (), sa)"
    by simp
  note run = load_student_association_run [OF p a]
  from make_request_first_call [OF ready base] obtain rest where
    "sent (snd (load_student E st s))
       = sent sa @ api_call E (client sa) base' ''/ed-fi/studentSchoolAssociations'' ''POST''
                     (Some a) # rest"
    unfolding run(1) by blast
  from new_calls_append [OF this]
  show "\<exists>rest. new_calls sa (snd (load_student E st s))
                 = api_call E (client sa) base' ''/ed-fi/studentSchoolAssociations'' ''POST''
                     (Some a) # rest"
    by blast
  show "call_json (api_call E (client sa) base' ''/ed-fi/studentSchoolAssociations'' ''POST''
                        (Some a)) = Some a"
    by (rule json_arg_Some [OF association_payload_nonempty [OF a]])
  show "fst (load_student E st s)
            = (case fst (make_request E ''/ed-fi/studentSchoolAssociations'' ''POST'' (Some a)
                           (s'\<lparr>logged := logged s' @ [LogStudentCreated (unique_id st)]\<rparr>)) of
                 Inl x \<Rightarrow> Inl x | Inr x \<Rightarrow> Inr ())"
    by (rule run(2))
next
  assume h: "k < length students
      \<and> (\<forall>i < length students. i \<noteq> k \<longrightarrow> load_results E students sb ! i = Inr ())
      \<and> fst (primary_create E (students ! k) (run_states E students sb ! k)) = Inl e'"
  let ?rs = "load_results E students sb"
  from h have k: "k < length ?rs" by simp
  from h have ok: "\<forall>i < length ?rs. i \<noteq> k \<longrightarrow> \<not> isl (?rs ! i)" by simp
  obtain s' where "primary_create E (students ! k) (run_states E students sb ! k) = (Inl e', s')"
    using h by (cases "primary_create E (students ! k) (run_states E students sb ! k)") auto
  from load_student_primary_fails [OF this] h have bad: "isl (?rs ! k)"
    by (simp add: load_results_nth)
  from one_failure_counts [OF k ok bad]
  show "fst (load_loop E students (0, 0) sb) = Inr (length students - 1, 1)"
    by (simp add: load_loop_counts)
qed

theorem load_student_primary_first_witness:
  "fst (load_student demo_env bare (session [Inr server_error, Inr created, Inr created]))
     = Inl (RequestException (HTTPError server_error))
   \<and> map call_json (sent (snd (load_student demo_env bare
         (session [Inr server_error, Inr created, Inr created]))))
     = [Some (create_student_payload bare)]
   \<and> list_all (\<lambda>q. is_api_request q \<longrightarrow> call_json q = Some (create_student_payload diana))
        (sent (snd (primary_create demo_env diana (session [Inr created, Inr created]))))
   \<and> RequestsRequest ''POST'' ''https://api.test/data/v3/ed-fi/students''
        [(''Authorization'', ''Bearer t1''), (''Content-Type'', ''application/json'')]
        (Some (create_student_payload diana)) 30
       \<in> set (sent (snd (primary_create demo_env diana (session [Inr created, Inr created]))))
   \<and> RequestsRequest ''POST'' ''https://api.test/data/v3/ed-fi/studentSchoolAssociations''
        [(''Authorization'', ''Bearer t1''), (''Content-Type'', ''application/json'')]
        (Some [(''studentReference'', PDict [(''studentUniqueId'', PStr ''604835'')]),
               (''schoolReference'', PDict [(''schoolId'', PInt 255901001)]),
               (''entryDate'', PStr ''2021-08-23''),
               (''entryGradeLevelDescriptor'',
                  PStr ''uri://ed-fi.org/GradeLevelDescriptor#Ninth grade''),
               (''fullTimeEquivalency'', PFloat (Finite False 1 0))]) 30
       \<in> set (sent (snd (load_student demo_env diana (session [Inr created, Inr created]))))
   \<and> fst (load_student demo_env diana (session [Inr created, Inr created])) = Inr ()
   \<and> length (sent (snd (load_student demo_env diana (session [Inr created, Inr created])))) = 2
   \<and> fst (load_loop demo_env [bare, diana] (0, 0)
            (session [Inr server_error, Inr created, Inr created])) = Inr (1, 1)"
proof -
  let ?W = "[Inr server_error, Inr created, Inr created]"
  let ?D = "session [Inr created, Inr created]"
  let ?e = "RequestException (HTTPError server_error)"
  let ?b = "''https://api.test/data/v3''"
  let ?A = "[(''studentReference'', PDict [(''studentUniqueId'', PStr ''604835'')]),
             (''schoolReference'', PDict [(''schoolId'', PInt 255901001)]),
             (''entryDate'', PStr ''2021-08-23''),
             (''entryGradeLevelDescriptor'',
                PStr ''uri://ed-fi.org/GradeLevelDescriptor#Ninth grade''),
             (''fullTimeEquivalency'', PFloat (Finite False 1 0))]"
  let ?cp = "api_call demo_env (client (session [])) ?b ''/ed-fi/students'' ''POST''
               (Some (create_student_payload diana))"
  let ?S2 = "\<lparr>client = client (session []), world = [Inr created], sent = [?cp],
              logged = [loading_entry diana]\<rparr> :: (string + response) list state"
  let ?sp = "?D\<lparr>logged := logged ?D @ [loading_entry diana]\<rparr>"
  let ?sa = "?S2\<lparr>logged := logged ?S2 @ [LogStudentCreated (unique_id diana)]\<rparr>"
  have f1: "fst (primary_create demo_env bare (session ?W)) = Inl ?e"
    by (simp add: primary_create_def loading_entry_def loader_defs loader_input_defs)
  then obtain S1 where p1: "primary_create demo_env bare (session ?W) = (Inl ?e, S1)"
    by (cases "primary_create demo_env bare (session ?W)") auto
  have c1: "map call_json (sent (snd (primary_create demo_env bare (session ?W))))
      = [Some (create_student_payload bare)]"
    by (simp add: primary_create_def loading_entry_def loader_defs loader_input_defs)
  have p2: "primary_create demo_env diana ?D = (Inr (PDict []), ?S2)"
    by (simp add: primary_create_def loading_entry_def loader_defs loader_input_defs)
  have a2: "create_student_school_association_payload demo_env (client ?S2) diana = Inr ?A"
    by (simp add: create_student_school_association_payload_def input_defs)
  have m2: "fst (make_request demo_env ''/ed-fi/studentSchoolAssociations'' ''POST'' (Some ?A) ?sa)
      = Inr (PDict [])"
    by (simp add: loading_entry_def loader_defs loader_input_defs)
  have n2: "length (sent (snd (make_request demo_env ''/ed-fi/studentSchoolAssociations'' ''POST''
                                 (Some ?A) ?sa))) = 2"
    by (simp add: loading_entry_def loader_defs loader_input_defs)
  have res: "load_results demo_env [bare, diana] (session ?W) = [Inl ?e, Inr ()]"
    by (simp add: load_results_def loader_defs loader_input_defs)
  have pk: "fst (primary_create demo_env ([bare, diana] ! 0)
                  (run_states demo_env [bare, diana] (session ?W) ! 0)) = Inl ?e"
    using f1 by simp
  note A = load_student_primary_first
    [where E = demo_env and st = bare and s = "session ?W" and e = ?e
       and s' = S1 and c = demo_client and a = "[]"
       and v = PNone and k = 0 and students = "[bare, diana]" and sb = "session ?W" and e' = ?e
       and sp = "session ?W" and base = ?b and sa = "session ?W" and base' = ?b]
  note B = load_student_primary_first
    [where E = demo_env and st = diana and s = ?D and e = ?e
       and s' = ?S2 and c = demo_client and a = ?A
       and v = "PDict []" and k = 0 and students = "[bare, diana]" and sb = "session ?W" and e' = ?e
       and sp = ?sp and base = ?b and sa = ?sa and base' = ?b]
  from A p1 have r1: "fst (load_student demo_env bare (session ?W)) = Inl ?e"
    and same: "sent (snd (load_student demo_env bare (session ?W))) = sent S1"
    by blast+
  from p1 have "S1 = snd (primary_create demo_env bare (session ?W))" by simp
  with same c1 have r2: "map call_json (sent (snd (load_student demo_env bare (session ?W))))
      = [Some (create_student_payload bare)]"
    by simp
  from B p2 have "\<forall>q \<in> set (new_calls ?D ?S2).
      is_api_request q \<longrightarrow> call_json q = Some (create_student_payload diana)"
    by blast
  moreover have "sent ?D = []" by (simp add: session_def)
  ultimately have r3: "list_all (\<lambda>q. is_api_request q \<longrightarrow> call_json q = Some (create_student_payload diana))
        (sent (snd (primary_create demo_env diana ?D)))"
    by (simp add: p2 list_all_iff new_calls_def)
  have h3: "(truthy (access_token (client ?D)) \<and> ?sp = ?D\<lparr>logged := logged ?D @ [loading_entry diana]\<rparr>
       \<or> \<not> truthy (access_token (client ?D))
         \<and> authenticate demo_env (?D\<lparr>logged := logged ?D @ [loading_entry diana]\<rparr>) = (Inr (), ?sp))
      \<and> data_management_api_url (client ?sp) = PStr ?b"
    by (simp add: session_def)
  from B h3 obtain rest where
    "new_calls ?sp (snd (primary_create demo_env diana ?D))
       = api_call demo_env (client ?sp) ?b ''/ed-fi/students'' ''POST''
           (Some (create_student_payload diana)) # rest"
    by blast
  then have "api_call demo_env (client ?sp) ?b ''/ed-fi/students'' ''POST''
           (Some (create_student_payload diana))
      \<in> set (drop (length (sent ?sp)) (sent (snd (primary_create demo_env diana ?D))))"
    by (simp add: new_calls_def)
  then have "api_call demo_env (client ?sp) ?b ''/ed-fi/students'' ''POST''
           (Some (create_student_payload diana))
      \<in> set (sent (snd (primary_create demo_env diana ?D)))"
    by (rule in_set_dropD)
  then have r4: "RequestsRequest ''POST'' ''https://api.test/data/v3/ed-fi/students''
        [(''Authorization'', ''Bearer t1''), (''Content-Type'', ''application/json'')]
        (Some (create_student_payload diana)) 30
       \<in> set (sent (snd (primary_create demo_env diana ?D)))"
    by (simp add: api_call_def json_arg_def create_student_payload_nonempty format_value_def
          lstrip_def session_def demo_client_def EdFiApiClient_init_def demo_env_def)
  have h4: "primary_create demo_env diana ?D = (Inr (PDict []), ?S2)
      \<and> create_student_school_association_payload demo_env (client ?S2) diana = Inr ?A
      \<and> (truthy (access_token (client ?S2))
           \<and> ?sa = ?S2\<lparr>logged := logged ?S2 @ [LogStudentCreated (unique_id diana)]\<rparr>
         \<or> \<not> truthy (access_token (client ?S2))
           \<and> authenticate demo_env (?S2\<lparr>logged := logged ?S2 @ [LogStudentCreated (unique_id diana)]\<rparr>)
               = (Inr (), ?sa))
      \<and> data_management_api_url (client ?sa) = PStr ?b"
    using p2 a2 by (simp add: session_def)
  from B h4 obtain rest' where
    calls: "new_calls ?sa (snd (load_student demo_env diana ?D))
       = api_call demo_env (client ?sa) ?b ''/ed-fi/studentSchoolAssociations'' ''POST''
           (Some ?A) # rest'"
    and result: "fst (load_student demo_env diana ?D)
       = (case fst (make_request demo_env ''/ed-fi/studentSchoolAssociations'' ''POST'' (Some ?A) ?sa) of
            Inl x \<Rightarrow> Inl x | Inr x \<Rightarrow> Inr ())"
    by blast
  from calls have "api_call demo_env (client ?sa) ?b ''/ed-fi/studentSchoolAssociations'' ''POST''
           (Some ?A)
      \<in> set (drop (length (sent ?sa)) (sent (snd (load_student demo_env diana ?D))))"
    by (simp add: new_calls_def)
  then have "api_call demo_env (client ?sa) ?b ''/ed-fi/studentSchoolAssociations'' ''POST''
           (Some ?A)
      \<in> set (sent (snd (load_student demo_env diana ?D)))"
    by (rule in_set_dropD)
  then have r5: "RequestsRequest ''POST'' ''https://api.test/data/v3/ed-fi/studentSchoolAssociations''
        [(''Authorization'', ''Bearer t1''), (''Content-Type'', ''application/json'')]
        (Some ?A) 30
       \<in> set (sent (snd (load_student demo_env diana ?D)))"
    by (simp add: api_call_def json_arg_def format_value_def
          lstrip_def session_def demo_client_def EdFiApiClient_init_def demo_env_def)
  from result m2 have r6: "fst (load_student demo_env diana ?D) = Inr ()" by simp
  have r7: "length (sent (snd (load_student demo_env diana ?D))) = 2"
    using n2 by (simp add: load_student_association_run(1) [OF p2 a2])
  have hyp: "0 < length [bare, diana]
      \<and> (\<forall>i < length [bare, diana]. i \<noteq> 0 \<longrightarrow>
            load_results demo_env [bare, diana] (session ?W) ! i = Inr ())
      \<and> fst (primary_create demo_env ([bare, diana] ! 0)
                  (run_states demo_env [bare, diana] (session ?W) ! 0)) = Inl ?e"
    using pk res by (simp add: nth_Cons' del: run_states.simps)
  from A hyp have r8: "fst (load_loop demo_env [bare, diana] (0, 0) (session ?W)) = Inr (1, 1)"
    by (simp del: load_loop.simps run_states.simps)
  from r1 r2 r3 r4 r5 r6 r7 r8 show ?thesis by simp
qed

lemma load_student_body_logs:
  "relates (logs_only (\<lambda>l. \<not> is_loading l))
     (except_any
       (bind (make_request E ''/ed-fi/students'' ''POST''
                (Some (create_student_payload student))) (\<lambda>_.
        next_do (logger (LogStudentCreated (unique_id student)))
       (bind get_client (\<lambda>c.
        bind (lift (create_student_school_association_payload E c student)) (\<lambda>association_payload.
        bind (make_request E ''/ed-fi/studentSchoolAssociations'' ''POST''
                (Some association_payload)) (\<lambda>_.
        logger (LogAssociationCreated (unique_id student))))))))
       (\<lambda>e. next_do (logger (LogLoadFailed (unique_id student) e)) (raise e)))"
  by (intro relates_intros make_request_logs) simp_all

lemma load_student_logs:
  assumes "load_student E st s = (r, s')"
  shows "\<exists>rest. logged s' = logged s @ loading_entry st # rest \<and> filter is_loading rest = []"
proof -
  from assms have "except_any
       (bind (make_request E ''/ed-fi/students'' ''POST''
                (Some (create_student_payload st))) (\<lambda>_.
        next_do (logger (LogStudentCreated (unique_id st)))
       (bind get_client (\<lambda>c.
        bind (lift (create_student_school_association_payload E c st)) (\<lambda>association_payload.
        bind (make_request E ''/ed-fi/studentSchoolAssociations'' ''POST''
                (Some association_payload)) (\<lambda>_.
        logger (LogAssociationCreated (unique_id st))))))))
       (\<lambda>e. next_do (logger (LogLoadFailed (unique_id st) e)) (raise e))
       (s\<lparr>logged := logged s @ [loading_entry st]\<rparr>) = (r, s')"
    by (simp add: load_student_def next_do_def bind_def logger_def loading_entry_def)
  from relatesD [OF load_student_body_logs this] obtain rest where
    "logged s' = (logged s @ [loading_entry st]) @ rest" "\<forall>l \<in> set rest. \<not> is_loading l"
    by (auto simp: logs_only_def)
  then show ?thesis by (simp add: filter_empty_conv)
qed

lemma load_loop_logs:
  "\<exists>rest. logged (snd (load_loop E students counts s)) = logged s @ rest
         \<and> filter is_loading rest = map loading_entry students"
proof (induction students arbitrary: counts s)
  case Nil
  show ?case by (simp add: ret_def)
next
  case (Cons st sts)
  obtain a b where counts: "counts = (a, b)" by (cases counts)
  obtain r s' where run: "load_student E st s = (r, s')" by (cases "load_student E st s")
  from load_student_logs [OF run] obtain rest where
    rest: "logged s' = logged s @ loading_entry st # rest" "filter is_loading rest = []"
    by blast
  show ?case
  proof (cases r)
    case (Inl e)
    from Cons.IH [of "(a, b + 1)" "s'\<lparr>logged := logged s' @ [LogContinuing]\<rparr>"]
    obtain more where more:
      "logged (snd (load_loop E sts (a, b + 1) (s'\<lparr>logged := logged s' @ [LogContinuing]\<rparr>)))
         = logged (s'\<lparr>logged := logged s' @ [LogContinuing]\<rparr>) @ more"
      "filter is_loading more = map loading_entry sts"
      by blast
    have "logged (snd (load_loop E (st # sts) counts s))
        = logged s @ (loading_entry st # rest @ LogContinuing # more)"
      using more(1) rest(1) run Inl counts by (simp add: load_loop_Cons del: load_loop.simps(2))
    moreover have "filter is_loading (loading_entry st # rest @ LogContinuing # more)
        = map loading_entry (st # sts)"
      using more(2) rest(2) by (simp add: loading_entry_def)
    ultimately show ?thesis by blast
  next
    case (Inr u)
    from Cons.IH [of "(a + 1, b)" s']
    obtain more where more:
      "logged (snd (load_loop E sts (a + 1, b) s')) = logged s' @ more"
      "filter is_loading more = map loading_entry sts"
      by blast
    have "logged (snd (load_loop E (st # sts) counts s))
        = logged s @ (loading_entry st # rest @ more)"
      using more(1) rest(1) run Inr counts by (simp add: load_loop_Cons del: load_loop.simps(2))
    moreover have "filter is_loading (loading_entry st # rest @ more)
        = map loading_entry (st # sts)"
      using more(2) rest(2) by (simp add: loading_entry_def)
    ultimately show ?thesis by blast
  qed
qed

lemma load_all_students_run:
  assumes "open_csv E csv_filename = Inr rows" and "students_of_rows rows = Inr students"
    and "load_loop E students (0, 0)
           (s\<lparr>logged := logged s @ [LogReadRecords (length students) csv_filename]\<rparr>)
         = (Inr (success_count, error_count), s')"
  shows "load_all_students E csv_filename s =
    (Inr PNone,
     s'\<lparr>logged := logged s' @ LogLoadComplete success_count error_count
                    # (if error_count > 0 then [LogStudentsFailed error_count] else [])\<rparr>)"
  using assms
  by (simp add: load_all_students_def read_csv_file_def sum_bind_def prog_defs
        del: load_loop.simps)

text \<open>
  Claim C2, as amended. Once the file has been read, \<open>load_all_students\<close> never raises:
  it starts on every record in input order, whatever became of the records before it, and
  counts the records that loaded and the records whose loading raised, the two counts adding
  up to the number of records. It writes the two counts to the log as
  \<open>Load complete\<close> and its own value is \<open>None\<close>.
\<close>

theorem load_all_students_tallies:
  assumes "open_csv E csv_filename = Inr rows" and "students_of_rows rows = Inr students"
    and "results = load_results E students
           (s\<lparr>logged := logged s @ [LogReadRecords (length students) csv_filename]\<rparr>)"
  shows "fst (load_all_students E csv_filename s) = Inr PNone
    \<and> length (filter (\<lambda>r. \<not> isl r) results) + length (filter isl results) = length students
    \<and> LogLoadComplete (length (filter (\<lambda>r. \<not> isl r) results)) (length (filter isl results))
        \<in> set (new_log s (snd (load_all_students E csv_filename s)))
    \<and> filter is_loading (new_log s (snd (load_all_students E csv_filename s)))
        = map loading_entry students"
proof -
  let ?s1 = "s\<lparr>logged := logged s @ [LogReadRecords (length students) csv_filename]\<rparr>"
  let ?S = "length (filter (\<lambda>r. \<not> isl r) results)"
  let ?F = "length (filter isl results)"
  obtain s' where loop: "load_loop E students (0, 0) ?s1 = (Inr (?S, ?F), s')"
    using load_loop_counts [of E students 0 0 ?s1] assms(3)
    by (cases "load_loop E students (0, 0) ?s1") (simp del: load_loop.simps)
  note run = load_all_students_run [OF assms(1, 2) loop]
  from load_loop_logs [of E students "(0, 0)" ?s1] loop obtain rest where
    rest: "logged s' = logged ?s1 @ rest" "filter is_loading rest = map loading_entry students"
    by auto
  have log: "new_log s (snd (load_all_students E csv_filename s))
      = LogReadRecords (length students) csv_filename # rest
        @ LogLoadComplete ?S ?F # (if ?F > 0 then [LogStudentsFailed ?F] else [])"
    using rest(1) by (simp add: run new_log_def)
  have total: "?S + ?F = length students"
    using sum_length_filter_compl [of isl results] assms(3) by simp
  show ?thesis
    using total rest(2) by (simp add: log) (simp add: run)
qed

theorem load_all_students_tallies_witness:
  "fst (load_all_students csv_env ''students.csv'' (session [Inr server_error])) = Inr PNone
   \<and> LogLoadComplete 0 1
       \<in> set (logged (snd (load_all_students csv_env ''students.csv'' (session [Inr server_error]))))
   \<and> filter is_loading
        (logged (snd (load_all_students csv_env ''students.csv'' (session [Inr server_error]))))
       = [LogLoading ''604835'' ''Diana'' ''Holt'']"
proof -
  let ?s = "session [Inr server_error]"
  have rows: "open_csv csv_env ''students.csv'' = Inr [diana_row]"
    by (simp add: csv_env_def demo_env_def)
  have students: "students_of_rows [diana_row] = Inr [diana]"
    by (simp add: student_of_row_def row_get_optional_def row_get_def sum_bind_def
          diana_row_def diana_def)
  have results: "[Inl (RequestException (HTTPError server_error))]
      = load_results csv_env [diana] (?s\<lparr>logged := logged ?s @ [LogReadRecords (length [diana]) ''students.csv'']\<rparr>)"
    by (simp add: load_results_def loader_defs loader_input_defs csv_env_def)
  from load_all_students_tallies [OF rows students results]
  show ?thesis
    by (simp add: new_log_def session_def loading_entry_def diana_def)
qed

text \<open>
  Claim C2 as stated fails on what the caller receives: a run with one success and a run
  with one error both return \<open>None\<close>, and the counts appear in the log only.
\<close>

theorem load_all_students_returns_none_counterexample:
  "fst (load_all_students csv_env ''students.csv'' (session [Inr created, Inr created])) = Inr PNone
   \<and> last (logged (snd (load_all_students csv_env ''students.csv''
                          (session [Inr created, Inr created])))) = LogLoadComplete 1 0
   \<and> fst (load_all_students csv_env ''students.csv'' (session [Inr server_error])) = Inr PNone
   \<and> LogLoadComplete 0 1
       \<in> set (logged (snd (load_all_students csv_env ''students.csv'' (session [Inr server_error]))))"
  by (simp add: load_all_students_def read_csv_file_def sum_bind_def student_of_row_def
        row_get_optional_def row_get_def diana_row_def csv_env_def loader_defs loader_input_defs)

end
